theory Spec2Isabelle
  imports Main
begin

section \<open>Python values, exceptions and the HTTP transport\<close>

text \<open>
  The SDK (\<^verbatim>\<open>agxcl_sdk/client.py\<close>, \<^verbatim>\<open>agxcl_sdk/contracts.py\<close>) moves JSON values between the
  caller and a remote service. A decoded JSON document is a \<open>json\<close> value; \<open>JNull\<close> is
  Python's \<^verbatim>\<open>None\<close>, and an object is the list of its items (a Python dict has no
  duplicate keys). JSON numbers are integers here: floating-point payloads are outside
  the model.
\<close>

datatype json =
    JNull
  | JBool bool
  | JInt int
  | JStr string
  | JList "json list"
  | JObj "(string \<times> json) list"

text \<open>
  An exception is its class and the text \<^verbatim>\<open>str(e)\<close> gives. The classes are those of the
  HTTP library and of subscripting, \<^verbatim>\<open>RuntimeError\<close>, any other subclass of \<^verbatim>\<open>Exception\<close>
  by name, and the classes that derive from \<^verbatim>\<open>BaseException\<close> without deriving from
  \<^verbatim>\<open>Exception\<close>: \<^verbatim>\<open>KeyboardInterrupt\<close>, \<^verbatim>\<open>SystemExit\<close> and any other by name. A clause
  \<^verbatim>\<open>except Exception\<close> catches the former and lets the latter through.
\<close>

datatype exn_class =
    ConnectionError
  | Timeout
  | HTTPError
  | JSONDecodeError
  | KeyError
  | TypeError
  | RuntimeError
  | OtherException string
  | KeyboardInterrupt
  | SystemExit
  | OtherBaseException string

fun is_Exception :: "exn_class \<Rightarrow> bool" where
  "is_Exception KeyboardInterrupt = False"
| "is_Exception SystemExit = False"
| "is_Exception (OtherBaseException n) = False"
| "is_Exception c = True"

datatype exn = Exn (exn_type: exn_class) (str: string)

definition squote :: string where
  "squote = [CHR 0x27]"

text \<open>Python truthiness, as \<^verbatim>\<open>if not x\<close> tests it.\<close>

fun truthy :: "json \<Rightarrow> bool" where
  "truthy JNull = False"
| "truthy (JBool b) = b"
| "truthy (JInt i) = (i \<noteq> 0)"
| "truthy (JStr s) = (s \<noteq> [])"
| "truthy (JList xs) = (xs \<noteq> [])"
| "truthy (JObj kvs) = (kvs \<noteq> [])"

text \<open>An \<^verbatim>\<open>Optional[str]\<close> as the Python value it is.\<close>

fun optional_str :: "string option \<Rightarrow> json" where
  "optional_str None = JNull"
| "optional_str (Some s) = JStr s"

text \<open>
  \<^verbatim>\<open>data["key"]\<close> with a string key: a dict gives the value or raises \<^verbatim>\<open>KeyError\<close>, whose
  text is the key's \<^verbatim>\<open>repr\<close> (the keys the SDK uses are plain identifiers, so the
  \<^verbatim>\<open>repr\<close> is the key in single quotes); any other value raises \<^verbatim>\<open>TypeError\<close>.
\<close>

fun getitem :: "json \<Rightarrow> string \<Rightarrow> exn + json" where
  "getitem (JObj kvs) k =
     (case map_of kvs k of
        Some v \<Rightarrow> Inr v
      | None \<Rightarrow> Inl (Exn KeyError (squote @ k @ squote)))"
| "getitem (JList xs) k =
     Inl (Exn TypeError ''list indices must be integers or slices, not str'')"
| "getitem (JStr s) k =
     Inl (Exn TypeError (''string indices must be integers, not '' @ squote @ ''str'' @ squote))"
| "getitem (JInt i) k =
     Inl (Exn TypeError (squote @ ''int'' @ squote @ '' object is not subscriptable''))"
| "getitem (JBool b) k =
     Inl (Exn TypeError (squote @ ''bool'' @ squote @ '' object is not subscriptable''))"
| "getitem JNull k =
     Inl (Exn TypeError (squote @ ''NoneType'' @ squote @ '' object is not subscriptable''))"

text \<open>Statements of a \<^verbatim>\<open>try\<close> body in sequence: the first exception ends the body.\<close>

definition and_then :: "exn + 'a \<Rightarrow> ('a \<Rightarrow> exn + 'b) \<Rightarrow> exn + 'b" where
  "and_then m f = (case m of Inl e \<Rightarrow> Inl e | Inr v \<Rightarrow> f v)"

text \<open>
  \<^verbatim>\<open>try: body except Exception as e: handler(e)\<close>: an exception of the body that is an
  instance of \<^verbatim>\<open>Exception\<close> goes to the handler, any other leaves the statement as it is.
\<close>

definition try_except :: "exn + 'a \<Rightarrow> (exn \<Rightarrow> exn + 'a) \<Rightarrow> exn + 'a" where
  "try_except body handler =
     (case body of
        Inl e \<Rightarrow> if is_Exception (exn_type e) then handler e else Inl e
      | Inr v \<Rightarrow> Inr v)"

text \<open>\<^verbatim>\<open>str(i)\<close> of an integer, as an f-string renders it: decimal, with a sign when negative.\<close>

fun str_nat :: "nat \<Rightarrow> string" where
  "str_nat n =
     (if n < 10 then [''0123456789'' ! n]
      else str_nat (n div 10) @ [''0123456789'' ! (n mod 10)])"

declare str_nat.simps [simp del]

definition str_int :: "int \<Rightarrow> string" where
  "str_int i = (if i < 0 then ''-'' @ str_nat (nat (- i)) else str_nat (nat i))"

subsection \<open>The HTTP library\<close>

text \<open>
  The \<^verbatim>\<open>requests\<close> library is not part of the repository. A request is what the SDK
  hands to \<^verbatim>\<open>session.post\<close> or \<^verbatim>\<open>session.get\<close>. A response is what the SDK asks of it:
  the status code, the reason phrase and the URL, which \<^verbatim>\<open>raise_for_status()\<close> reads, and
  \<open>body\<close>, what \<^verbatim>\<open>json()\<close> returns or raises. The transport is any function from the
  requests sent so far and the request at hand to an exception or a response, as a
  mocked session is.
\<close>

datatype http_verb = GET | POST

record request =
  verb :: http_verb
  url :: string
  payload :: "json option"
  timeout :: nat

record response =
  status_code :: int
  reason :: string
  response_url :: string
  body :: "exn + json"

type_synonym transport = "request list \<Rightarrow> request \<Rightarrow> exn + response"

text \<open>
  The session object: the headers the client sets, and the requests attempted through
  it so far, oldest first.
\<close>

record Session =
  headers :: "(string \<times> string) list"
  sent :: "request list"

definition session_request :: "transport \<Rightarrow> Session \<Rightarrow> request \<Rightarrow> (exn + response) \<times> Session" where
  "session_request t s r = (t (sent s) r, s\<lparr>sent := sent s @ [r]\<rparr>)"

definition session_post :: "transport \<Rightarrow> Session \<Rightarrow> string \<Rightarrow> json \<Rightarrow> nat \<Rightarrow> (exn + response) \<times> Session" where
  "session_post t s u j tmo =
     session_request t s \<lparr>verb = POST, url = u, payload = Some j, timeout = tmo\<rparr>"

definition session_get :: "transport \<Rightarrow> Session \<Rightarrow> string \<Rightarrow> nat \<Rightarrow> (exn + response) \<times> Session" where
  "session_get t s u tmo =
     session_request t s \<lparr>verb = GET, url = u, payload = None, timeout = tmo\<rparr>"

text \<open>
  \<^verbatim>\<open>Response.raise_for_status()\<close> as the library has it: the message is built for a status
  code from 400 to 499 (a client error) and from 500 to 599 (a server error), and
  \<^verbatim>\<open>HTTPError\<close> is raised when there is a message. Every other status code, 2xx or not,
  passes. The SDK has no status test of its own.
\<close>

definition http_error_msg :: "response \<Rightarrow> string" where
  "http_error_msg r =
     (if 400 \<le> status_code r \<and> status_code r < 500
      then str_int (status_code r) @ '' Client Error: '' @ reason r @ '' for url: '' @ response_url r
      else if 500 \<le> status_code r \<and> status_code r < 600
      then str_int (status_code r) @ '' Server Error: '' @ reason r @ '' for url: '' @ response_url r
      else [])"

definition raise_for_status :: "response \<Rightarrow> exn + unit" where
  "raise_for_status r =
     (if http_error_msg r \<noteq> [] then Inl (Exn HTTPError (http_error_msg r)) else Inr ())"

definition response_json :: "response \<Rightarrow> exn + json" where
  "response_json r = body r"

section \<open>The client (\<^verbatim>\<open>client.py\<close>)\<close>

record AgefixConfig =
  rpc_url :: string
  chain_id :: string
  private_key :: "string option"

text \<open>
  The result records. Their fields hold whatever the response's fields hold: the code
  copies them without a check.
\<close>

record ContractDeployment =
  contract_address :: json
  transaction_hash :: json
  block_number :: json

record QueryResult =
  success :: bool
  data :: json
  error :: "string option"

record TransactionResult =
  tx_hash :: json
  tx_block_number :: json
  gas_used :: json
  tx_success :: bool

record AgefixClient =
  config :: AgefixConfig
  session :: Session

definition AgefixClient_init :: "AgefixConfig \<Rightarrow> AgefixClient" where
  "AgefixClient_init cfg =
     \<lparr>config = cfg,
      session = \<lparr>headers = [(''Content-Type'', ''application/json'')], sent = []\<rparr>\<rparr>"

text \<open>\<^verbatim>\<open>if args is None: args = []\<close>.\<close>

definition default_args :: "json list option \<Rightarrow> json list" where
  "default_args a = (case a of None \<Rightarrow> [] | Some xs \<Rightarrow> xs)"

text \<open>
  Every operation takes the transport and the client object and returns what the call
  returns (\<open>Inr\<close>) or raises (\<open>Inl\<close>), with the client object as the call leaves it.
  A contract address is a Python value: the helpers pass on whatever a deployment's
  response held, and the client puts it in the request as it is.
\<close>

definition deploy_contract ::
  "transport \<Rightarrow> AgefixClient \<Rightarrow> string \<Rightarrow> json list option \<Rightarrow> (exn + ContractDeployment) \<times> AgefixClient" where
  "deploy_contract t self contract_code constructor_args =
     (let constructor_args = default_args constructor_args;
          (r, s) = session_post t (session self) (rpc_url (config self) @ ''/deploy'')
                     (JObj [(''code'', JStr contract_code),
                            (''args'', JList constructor_args),
                            (''chainId'', JStr (chain_id (config self))),
                            (''privateKey'', optional_str (private_key (config self)))])
                     30
      in (try_except
            (and_then r (\<lambda>response.
             and_then (raise_for_status response) (\<lambda>_.
             and_then (response_json response) (\<lambda>data.
             and_then (getitem data ''contractAddress'') (\<lambda>a.
             and_then (getitem data ''txHash'') (\<lambda>h.
             and_then (getitem data ''blockNumber'') (\<lambda>b.
               Inr \<lparr>contract_address = a, transaction_hash = h, block_number = b\<rparr>)))))))
            (\<lambda>e. Inl (Exn RuntimeError (''Contract deployment failed: '' @ str e))),
          self\<lparr>session := s\<rparr>))"

definition query_contract ::
  "transport \<Rightarrow> AgefixClient \<Rightarrow> json \<Rightarrow> string \<Rightarrow> json list option \<Rightarrow> (exn + QueryResult) \<times> AgefixClient" where
  "query_contract t self address method args =
     (let args = default_args args;
          (r, s) = session_post t (session self) (rpc_url (config self) @ ''/query'')
                     (JObj [(''contractAddress'', address),
                            (''method'', JStr method),
                            (''args'', JList args),
                            (''chainId'', JStr (chain_id (config self)))])
                     30
      in (try_except
            (and_then r (\<lambda>response.
             and_then (raise_for_status response) (\<lambda>_.
             and_then (response_json response) (\<lambda>data.
             and_then (getitem data ''result'') (\<lambda>v.
               Inr \<lparr>success = True, data = v, error = None\<rparr>)))))
            (\<lambda>e. Inr \<lparr>success = False, data = JNull, error = Some (str e)\<rparr>),
          self\<lparr>session := s\<rparr>))"

definition execute_transaction ::
  "transport \<Rightarrow> AgefixClient \<Rightarrow> json \<Rightarrow> string \<Rightarrow> json list option \<Rightarrow> string \<Rightarrow> (exn + TransactionResult) \<times> AgefixClient" where
  "execute_transaction t self address method args val =
     (if \<not> truthy (optional_str (private_key (config self)))
      then (Inl (Exn RuntimeError ''Private key required for transactions''), self)
      else
        (let args = default_args args;
             (r, s) = session_post t (session self) (rpc_url (config self) @ ''/execute'')
                        (JObj [(''contractAddress'', address),
                               (''method'', JStr method),
                               (''args'', JList args),
                               (''value'', JStr val),
                               (''chainId'', JStr (chain_id (config self))),
                               (''privateKey'', optional_str (private_key (config self)))])
                        30
         in (try_except
               (and_then r (\<lambda>response.
                and_then (raise_for_status response) (\<lambda>_.
                and_then (response_json response) (\<lambda>data.
                and_then (getitem data ''txHash'') (\<lambda>h.
                and_then (getitem data ''blockNumber'') (\<lambda>b.
                and_then (getitem data ''gasUsed'') (\<lambda>g.
                  Inr \<lparr>tx_hash = h, tx_block_number = b, gas_used = g, tx_success = True\<rparr>)))))))
               (\<lambda>e. Inl (Exn RuntimeError (''Transaction execution failed: '' @ str e))),
             self\<lparr>session := s\<rparr>)))"

definition get_transaction_receipt ::
  "transport \<Rightarrow> AgefixClient \<Rightarrow> string \<Rightarrow> (exn + json) \<times> AgefixClient" where
  "get_transaction_receipt t self txh =
     (let (r, s) = session_get t (session self) (rpc_url (config self) @ ''/tx/'' @ txh) 30
      in (try_except
            (and_then r (\<lambda>response.
             and_then (raise_for_status response) (\<lambda>_.
               response_json response)))
            (\<lambda>e. Inl (Exn RuntimeError (''Failed to get transaction receipt: '' @ str e))),
          self\<lparr>session := s\<rparr>))"

definition get_balance ::
  "transport \<Rightarrow> AgefixClient \<Rightarrow> string \<Rightarrow> (exn + json) \<times> AgefixClient" where
  "get_balance t self address =
     (let (r, s) = session_get t (session self) (rpc_url (config self) @ ''/balance/'' @ address) 30
      in (try_except
            (and_then r (\<lambda>response.
             and_then (raise_for_status response) (\<lambda>_.
             and_then (response_json response) (\<lambda>data.
               getitem data ''balance''))))
            (\<lambda>e. Inl (Exn RuntimeError (''Failed to get balance: '' @ str e))),
          self\<lparr>session := s\<rparr>))"

definition estimate_gas ::
  "transport \<Rightarrow> AgefixClient \<Rightarrow> json \<Rightarrow> string \<Rightarrow> json list option \<Rightarrow> (exn + json) \<times> AgefixClient" where
  "estimate_gas t self address method args =
     (let args = default_args args;
          (r, s) = session_post t (session self) (rpc_url (config self) @ ''/estimateGas'')
                     (JObj [(''contractAddress'', address),
                            (''method'', JStr method),
                            (''args'', JList args),
                            (''chainId'', JStr (chain_id (config self)))])
                     30
      in (try_except
            (and_then r (\<lambda>response.
             and_then (raise_for_status response) (\<lambda>_.
             and_then (response_json response) (\<lambda>data.
               getitem data ''gasEstimate''))))
            (\<lambda>e. Inl (Exn RuntimeError (''Failed to estimate gas: '' @ str e))),
          self\<lparr>session := s\<rparr>))"

section \<open>The contract helpers (\<^verbatim>\<open>contracts.py\<close>)\<close>

text \<open>
  A helper object holds a reference to a client, which it shares with its creator, and
  its own \<^verbatim>\<open>contract_address\<close>. The referenced client is the explicit \<open>client\<close> argument
  of every helper operation, returned as the call leaves it; the record holds the
  helper's own field. The address is \<open>JNull\<close> (\<^verbatim>\<open>None\<close>) until it is given or a
  deployment stores the response's \<^verbatim>\<open>contractAddress\<close>.
\<close>

record TokenContract =
  token_address :: json

record NFTContract =
  nft_address :: json

definition TokenContract_init :: "json \<Rightarrow> TokenContract" where
  "TokenContract_init a = \<lparr>token_address = a\<rparr>"

definition NFTContract_init :: "json \<Rightarrow> NFTContract" where
  "NFTContract_init a = \<lparr>nft_address = a\<rparr>"

text \<open>The contract source texts: the f-string templates of the two \<^verbatim>\<open>deploy\<close> methods.\<close>

definition token_code :: "string \<Rightarrow> string \<Rightarrow> string \<Rightarrow> string" where
  \<open>token_code name symbol total_supply =
     concat
     [''\<newline>'',
      ''contract Token {\<newline>'',
      ''  state {\<newline>'',
      ''    string name = "'',
      name,
      ''";\<newline>'',
      ''    string symbol = "'',
      symbol,
      ''";\<newline>'',
      ''    uint256 totalSupply = '',
      total_supply,
      '';\<newline>'',
      ''    mapping(address => uint256) balances;\<newline>'',
      ''    mapping(address => mapping(address => uint256)) allowances;\<newline>'',
      ''  }\<newline>'',
      ''\<newline>'',
      ''  constructor() {\<newline>'',
      ''    balances[msg.sender] = totalSupply;\<newline>'',
      ''  }\<newline>'',
      ''\<newline>'',
      ''  function balanceOf(address account) public view returns (uint256) {\<newline>'',
      ''    return balances[account];\<newline>'',
      ''  }\<newline>'',
      ''\<newline>'',
      ''  function transfer(address to, uint256 amount) public returns (bool) {\<newline>'',
      ''    require(balances[msg.sender] >= amount, "Insufficient balance");\<newline>'',
      ''    balances[msg.sender] -= amount;\<newline>'',
      ''    balances[to] += amount;\<newline>'',
      ''    emit Transfer(msg.sender, to, amount);\<newline>'',
      ''    return true;\<newline>'',
      ''  }\<newline>'',
      ''\<newline>'',
      ''  function approve(address spender, uint256 amount) public returns (bool) {\<newline>'',
      ''    allowances[msg.sender][spender] = amount;\<newline>'',
      ''    emit Approval(msg.sender, spender, amount);\<newline>'',
      ''    return true;\<newline>'',
      ''  }\<newline>'',
      ''\<newline>'',
      ''  function transferFrom(address from, address to, uint256 amount) public returns (bool) {\<newline>'',
      ''    require(balances[from] >= amount, "Insufficient balance");\<newline>'',
      ''    require(allowances[from][msg.sender] >= amount, "Insufficient allowance");\<newline>'',
      ''    balances[from] -= amount;\<newline>'',
      ''    balances[to] += amount;\<newline>'',
      ''    allowances[from][msg.sender] -= amount;\<newline>'',
      ''    emit Transfer(from, to, amount);\<newline>'',
      ''    return true;\<newline>'',
      ''  }\<newline>'',
      ''\<newline>'',
      ''  event Transfer(address indexed from, address indexed to, uint256 value);\<newline>'',
      ''  event Approval(address indexed owner, address indexed spender, uint256 value);\<newline>'',
      ''}\<newline>'',
      ''        '']\<close>

definition nft_code :: "string \<Rightarrow> string \<Rightarrow> string" where
  \<open>nft_code name symbol =
     concat
     [''\<newline>'',
      ''contract NFT {\<newline>'',
      ''  state {\<newline>'',
      ''    string name = "'',
      name,
      ''";\<newline>'',
      ''    string symbol = "'',
      symbol,
      ''";\<newline>'',
      ''    uint256 nextTokenId = 1;\<newline>'',
      ''    mapping(uint256 => address) owners;\<newline>'',
      ''    mapping(uint256 => string) tokenURIs;\<newline>'',
      ''    mapping(address => uint256) balances;\<newline>'',
      ''  }\<newline>'',
      ''\<newline>'',
      ''  function mint(address to, string memory uri) public returns (uint256) {\<newline>'',
      ''    uint256 tokenId = nextTokenId++;\<newline>'',
      ''    owners[tokenId] = to;\<newline>'',
      ''    tokenURIs[tokenId] = uri;\<newline>'',
      ''    balances[to]++;\<newline>'',
      ''    emit Mint(to, tokenId, uri);\<newline>'',
      ''    return tokenId;\<newline>'',
      ''  }\<newline>'',
      ''\<newline>'',
      ''  function ownerOf(uint256 tokenId) public view returns (address) {\<newline>'',
      ''    return owners[tokenId];\<newline>'',
      ''  }\<newline>'',
      ''\<newline>'',
      ''  function tokenURI(uint256 tokenId) public view returns (string memory) {\<newline>'',
      ''    return tokenURIs[tokenId];\<newline>'',
      ''  }\<newline>'',
      ''\<newline>'',
      ''  function balanceOf(address owner) public view returns (uint256) {\<newline>'',
      ''    return balances[owner];\<newline>'',
      ''  }\<newline>'',
      ''\<newline>'',
      ''  event Mint(address indexed to, uint256 indexed tokenId, string uri);\<newline>'',
      ''}\<newline>'',
      ''        '']\<close>

definition not_deployed :: exn where
  "not_deployed = Exn RuntimeError ''Contract not deployed''"

definition TokenContract_deploy ::
  "transport \<Rightarrow> TokenContract \<Rightarrow> AgefixClient \<Rightarrow> string \<Rightarrow> string \<Rightarrow> string
     \<Rightarrow> (exn + ContractDeployment) \<times> TokenContract \<times> AgefixClient" where
  "TokenContract_deploy t self client name symbol total_supply =
     (let (r, client') = deploy_contract t client (token_code name symbol total_supply) None
      in case r of
           Inl e \<Rightarrow> (Inl e, self, client')
         | Inr deployment \<Rightarrow>
             (Inr deployment, self\<lparr>token_address := contract_address deployment\<rparr>, client'))"

definition TokenContract_balance_of ::
  "transport \<Rightarrow> TokenContract \<Rightarrow> AgefixClient \<Rightarrow> string
     \<Rightarrow> (exn + json) \<times> TokenContract \<times> AgefixClient" where
  "TokenContract_balance_of t self client address =
     (if \<not> truthy (token_address self) then (Inl not_deployed, self, client)
      else
        (let (r, client') =
               query_contract t client (token_address self) ''balanceOf'' (Some [JStr address])
         in (case r of Inl e \<Rightarrow> Inl e | Inr result \<Rightarrow> Inr (data result), self, client')))"

definition TokenContract_transfer ::
  "transport \<Rightarrow> TokenContract \<Rightarrow> AgefixClient \<Rightarrow> string \<Rightarrow> string
     \<Rightarrow> (exn + TransactionResult) \<times> TokenContract \<times> AgefixClient" where
  "TokenContract_transfer t self client to amount =
     (if \<not> truthy (token_address self) then (Inl not_deployed, self, client)
      else
        (let (r, client') =
               execute_transaction t client (token_address self) ''transfer''
                 (Some [JStr to, JStr amount]) ''0''
         in (r, self, client')))"

definition TokenContract_approve ::
  "transport \<Rightarrow> TokenContract \<Rightarrow> AgefixClient \<Rightarrow> string \<Rightarrow> string
     \<Rightarrow> (exn + TransactionResult) \<times> TokenContract \<times> AgefixClient" where
  "TokenContract_approve t self client spender amount =
     (if \<not> truthy (token_address self) then (Inl not_deployed, self, client)
      else
        (let (r, client') =
               execute_transaction t client (token_address self) ''approve''
                 (Some [JStr spender, JStr amount]) ''0''
         in (r, self, client')))"

definition NFTContract_deploy ::
  "transport \<Rightarrow> NFTContract \<Rightarrow> AgefixClient \<Rightarrow> string \<Rightarrow> string
     \<Rightarrow> (exn + ContractDeployment) \<times> NFTContract \<times> AgefixClient" where
  "NFTContract_deploy t self client name symbol =
     (let (r, client') = deploy_contract t client (nft_code name symbol) None
      in case r of
           Inl e \<Rightarrow> (Inl e, self, client')
         | Inr deployment \<Rightarrow>
             (Inr deployment, self\<lparr>nft_address := contract_address deployment\<rparr>, client'))"

definition NFTContract_mint ::
  "transport \<Rightarrow> NFTContract \<Rightarrow> AgefixClient \<Rightarrow> string \<Rightarrow> string
     \<Rightarrow> (exn + TransactionResult) \<times> NFTContract \<times> AgefixClient" where
  "NFTContract_mint t self client to uri =
     (if \<not> truthy (nft_address self) then (Inl not_deployed, self, client)
      else
        (let (r, client') =
               execute_transaction t client (nft_address self) ''mint''
                 (Some [JStr to, JStr uri]) ''0''
         in (r, self, client')))"

definition NFTContract_owner_of ::
  "transport \<Rightarrow> NFTContract \<Rightarrow> AgefixClient \<Rightarrow> int
     \<Rightarrow> (exn + json) \<times> NFTContract \<times> AgefixClient" where
  "NFTContract_owner_of t self client token_id =
     (if \<not> truthy (nft_address self) then (Inl not_deployed, self, client)
      else
        (let (r, client') =
               query_contract t client (nft_address self) ''ownerOf'' (Some [JInt token_id])
         in (case r of Inl e \<Rightarrow> Inl e | Inr result \<Rightarrow> Inr (data result), self, client')))"

section \<open>Assignment to a field of the configuration\<close>

text \<open>
  \<^verbatim>\<open>AgefixConfig\<close> is declared with a bare \<^verbatim>\<open>@dataclass\<close>: the decorator's \<^verbatim>\<open>frozen\<close>
  parameter keeps its default, False. An assignment \<^verbatim>\<open>cfg.field = v\<close> to an instance of a
  frozen dataclass raises \<^verbatim>\<open>FrozenInstanceError\<close>; to any other it stores the value.
\<close>

definition AgefixConfig_frozen :: bool where
  "AgefixConfig_frozen = False"

datatype config_assignment =
    Set_rpc_url string
  | Set_chain_id string
  | Set_private_key "string option"

fun assigned_field :: "config_assignment \<Rightarrow> string" where
  "assigned_field (Set_rpc_url v) = ''rpc_url''"
| "assigned_field (Set_chain_id v) = ''chain_id''"
| "assigned_field (Set_private_key v) = ''private_key''"

fun store_field :: "AgefixConfig \<Rightarrow> config_assignment \<Rightarrow> AgefixConfig" where
  "store_field cfg (Set_rpc_url v) = cfg\<lparr>rpc_url := v\<rparr>"
| "store_field cfg (Set_chain_id v) = cfg\<lparr>chain_id := v\<rparr>"
| "store_field cfg (Set_private_key v) = cfg\<lparr>private_key := v\<rparr>"

definition AgefixConfig_setattr :: "AgefixConfig \<Rightarrow> config_assignment \<Rightarrow> exn + AgefixConfig" where
  "AgefixConfig_setattr cfg a =
     (if AgefixConfig_frozen
      then Inl (Exn (OtherException ''FrozenInstanceError'')
                  (''cannot assign to field '' @ squote @ assigned_field a @ squote))
      else Inr (store_field cfg a))"


section \<open>The requests the operations send, and how a reply fails\<close>

text \<open>
  The request each operation hands to the session, written out once, for the statements
  below: the verb, the URL under the configured endpoint, the JSON body and the fixed
  timeout of 30 seconds.
\<close>

definition deploy_request :: "AgefixConfig \<Rightarrow> string \<Rightarrow> json list option \<Rightarrow> request" where
  "deploy_request cfg contract_code constructor_args =
     \<lparr>verb = POST, url = rpc_url cfg @ ''/deploy'',
      payload = Some (JObj [(''code'', JStr contract_code),
                            (''args'', JList (default_args constructor_args)),
                            (''chainId'', JStr (chain_id cfg)),
                            (''privateKey'', optional_str (private_key cfg))]),
      timeout = 30\<rparr>"

definition query_request :: "AgefixConfig \<Rightarrow> json \<Rightarrow> string \<Rightarrow> json list option \<Rightarrow> request" where
  "query_request cfg address method args =
     \<lparr>verb = POST, url = rpc_url cfg @ ''/query'',
      payload = Some (JObj [(''contractAddress'', address),
                            (''method'', JStr method),
                            (''args'', JList (default_args args)),
                            (''chainId'', JStr (chain_id cfg))]),
      timeout = 30\<rparr>"

definition execute_request ::
  "AgefixConfig \<Rightarrow> json \<Rightarrow> string \<Rightarrow> json list option \<Rightarrow> string \<Rightarrow> request" where
  "execute_request cfg address method args val =
     \<lparr>verb = POST, url = rpc_url cfg @ ''/execute'',
      payload = Some (JObj [(''contractAddress'', address),
                            (''method'', JStr method),
                            (''args'', JList (default_args args)),
                            (''value'', JStr val),
                            (''chainId'', JStr (chain_id cfg)),
                            (''privateKey'', optional_str (private_key cfg))]),
      timeout = 30\<rparr>"

definition receipt_request :: "AgefixConfig \<Rightarrow> string \<Rightarrow> request" where
  "receipt_request cfg txh =
     \<lparr>verb = GET, url = rpc_url cfg @ ''/tx/'' @ txh, payload = None, timeout = 30\<rparr>"

definition balance_request :: "AgefixConfig \<Rightarrow> string \<Rightarrow> request" where
  "balance_request cfg address =
     \<lparr>verb = GET, url = rpc_url cfg @ ''/balance/'' @ address, payload = None, timeout = 30\<rparr>"

definition estimate_gas_request :: "AgefixConfig \<Rightarrow> json \<Rightarrow> string \<Rightarrow> json list option \<Rightarrow> request" where
  "estimate_gas_request cfg address method args =
     \<lparr>verb = POST, url = rpc_url cfg @ ''/estimateGas'',
      payload = Some (JObj [(''contractAddress'', address),
                            (''method'', JStr method),
                            (''args'', JList (default_args args)),
                            (''chainId'', JStr (chain_id cfg))]),
      timeout = 30\<rparr>"

text \<open>What the session answers to a request of the client.\<close>

definition reply :: "transport \<Rightarrow> AgefixClient \<Rightarrow> request \<Rightarrow> exn + response" where
  "reply t self r = t (sent (session self)) r"

text \<open>The client object after one more request has gone through its session.\<close>

definition with_request :: "AgefixClient \<Rightarrow> request \<Rightarrow> AgefixClient" where
  "with_request c r = c\<lparr>session := (session c)\<lparr>sent := sent (session c) @ [r]\<rparr>\<rparr>"

text \<open>
  The failure causes, in the specification's words: a transport error, a status that
  \<^verbatim>\<open>raise_for_status()\<close> refuses, a body that is not JSON, or a document from which an
  expected field cannot be read. \<open>missing_field d ks\<close> is the error of the first of the
  fields \<open>ks\<close> that cannot be read from \<open>d\<close>; \<open>failure_of r ks\<close> is the error a reply
  \<open>r\<close> fails with when the fields \<open>ks\<close> are expected in its document, \<open>None\<close> when the
  reply is good.
\<close>

fun missing_field :: "json \<Rightarrow> string list \<Rightarrow> exn option" where
  "missing_field d [] = None"
| "missing_field d (k # ks) =
     (case getitem d k of Inl e \<Rightarrow> Some e | Inr v \<Rightarrow> missing_field d ks)"

definition failure_of :: "exn + response \<Rightarrow> string list \<Rightarrow> exn option" where
  "failure_of r ks =
     (case r of
        Inl e \<Rightarrow> Some e
      | Inr resp \<Rightarrow>
          (case raise_for_status resp of
             Inl e \<Rightarrow> Some e
           | Inr u \<Rightarrow>
               (case body resp of
                  Inl e \<Rightarrow> Some e
                | Inr d \<Rightarrow> missing_field d ks)))"

section \<open>Transports and objects for the concrete cases\<close>

text \<open>
  A mocked endpoint that answers every request with the status \<open>code\<close>, the reason
  phrase \<open>phrase\<close> and the document \<open>j\<close>.
\<close>

definition mock_status :: "int \<Rightarrow> string \<Rightarrow> json \<Rightarrow> transport" where
  "mock_status code phrase j log r =
     Inr \<lparr>status_code = code, reason = phrase, response_url = url r, body = Inr j\<rparr>"

text \<open>A mocked endpoint that answers every request with 200 OK and the document \<open>j\<close>.\<close>

definition mock_reply :: "json \<Rightarrow> transport" where
  "mock_reply j = mock_status 200 ''OK'' j"

text \<open>A mocked session whose every request raises a connection error with the text \<open>m\<close>.\<close>

definition mock_connection_error :: "string \<Rightarrow> transport" where
  "mock_connection_error m log r = Inl (Exn ConnectionError m)"

text \<open>A session whose every request is interrupted from the keyboard.\<close>

definition mock_interrupt :: transport where
  "mock_interrupt log r = Inl (Exn KeyboardInterrupt [])"

definition config_no_key :: AgefixConfig where
  "config_no_key = \<lparr>rpc_url = ''https://rpc.agefix.com'', chain_id = ''agefix-mainnet-1'',
                    private_key = None\<rparr>"

definition config_with_key :: AgefixConfig where
  "config_with_key = \<lparr>rpc_url = ''https://rpc.agefix.com'', chain_id = ''agefix-mainnet-1'',
                      private_key = Some ''your_private_key''\<rparr>"

definition deploy_document :: json where
  "deploy_document =
     JObj [(''contractAddress'', JStr ''0xabc''), (''txHash'', JStr ''0x1''), (''blockNumber'', JInt 10)]"

definition execute_document :: json where
  "execute_document =
     JObj [(''txHash'', JStr ''0x2''), (''blockNumber'', JInt 11), (''gasUsed'', JInt 21000)]"

definition query_document :: json where
  "query_document = JObj [(''result'', JStr ''500'')]"

section \<open>Basic facts\<close>

lemma and_then_Inl [simp]: "and_then (Inl e) f = Inl e"
  by (simp add: and_then_def)

lemma and_then_Inr [simp]: "and_then (Inr v) f = f v"
  by (simp add: and_then_def)

subsection \<open>The status check\<close>

lemma http_error_msg_refused:
  "400 \<le> status_code r \<Longrightarrow> status_code r < 600 \<Longrightarrow> http_error_msg r \<noteq> []"
  by (simp add: http_error_msg_def)

lemma http_error_msg_passes:
  "status_code r < 400 \<or> 600 \<le> status_code r \<Longrightarrow> http_error_msg r = []"
  by (auto simp: http_error_msg_def)

lemma raise_for_status_refused:
  "400 \<le> status_code r \<Longrightarrow> status_code r < 600 \<Longrightarrow>
   raise_for_status r = Inl (Exn HTTPError (http_error_msg r))"
  by (simp add: raise_for_status_def http_error_msg_refused)

lemma raise_for_status_passes:
  "status_code r < 400 \<or> 600 \<le> status_code r \<Longrightarrow> raise_for_status r = Inr ()"
  by (simp add: raise_for_status_def http_error_msg_passes)

lemma failure_of_refused:
  "400 \<le> status_code r \<Longrightarrow> status_code r < 600 \<Longrightarrow>
   failure_of (Inr r) ks = Some (Exn HTTPError (http_error_msg r))"
  by (simp add: failure_of_def raise_for_status_refused)

lemma failure_of_passes:
  "status_code r < 400 \<or> 600 \<le> status_code r \<Longrightarrow> body r = Inr d \<Longrightarrow>
   failure_of (Inr r) ks = missing_field d ks"
  by (simp add: failure_of_def raise_for_status_passes)

subsection \<open>Each operation, by the reply it gets\<close>

lemmas transport_defs = session_post_def session_get_def session_request_def reply_def
  response_json_def try_except_def failure_of_def with_request_def Let_def

lemma deploy_contract_failure:
  "failure_of (reply t self (deploy_request (config self) code args))
     [''contractAddress'', ''txHash'', ''blockNumber''] = Some e \<Longrightarrow>
   is_Exception (exn_type e) \<Longrightarrow>
   fst (deploy_contract t self code args) =
     Inl (Exn RuntimeError (''Contract deployment failed: '' @ str e))"
  by (auto simp: deploy_contract_def deploy_request_def transport_defs
           split: sum.splits option.splits)

lemma deploy_contract_propagates:
  "failure_of (reply t self (deploy_request (config self) code args))
     [''contractAddress'', ''txHash'', ''blockNumber''] = Some e \<Longrightarrow>
   \<not> is_Exception (exn_type e) \<Longrightarrow>
   fst (deploy_contract t self code args) = Inl e"
  by (auto simp: deploy_contract_def deploy_request_def transport_defs
           split: sum.splits option.splits)

lemma deploy_contract_good:
  "reply t self (deploy_request (config self) code args) = Inr resp \<Longrightarrow>
   raise_for_status resp = Inr () \<Longrightarrow> body resp = Inr d \<Longrightarrow>
   getitem d ''contractAddress'' = Inr a \<Longrightarrow> getitem d ''txHash'' = Inr h \<Longrightarrow>
   getitem d ''blockNumber'' = Inr b \<Longrightarrow>
   fst (deploy_contract t self code args) =
     Inr \<lparr>contract_address = a, transaction_hash = h, block_number = b\<rparr>"
  by (simp add: deploy_contract_def deploy_request_def transport_defs)

lemma deploy_contract_returns:
  "failure_of (reply t self (deploy_request (config self) code args))
     [''contractAddress'', ''txHash'', ''blockNumber''] = None \<Longrightarrow>
   \<exists>v. fst (deploy_contract t self code args) = Inr v"
  by (auto simp: deploy_contract_def deploy_request_def transport_defs
           split: sum.splits option.splits)

lemma deploy_contract_raises:
  "fst (deploy_contract t self code args) = Inl x \<Longrightarrow>
   exn_type x = RuntimeError \<or> \<not> is_Exception (exn_type x)"
proof (cases "failure_of (reply t self (deploy_request (config self) code args))
     [''contractAddress'', ''txHash'', ''blockNumber'']")
  case None
  assume "fst (deploy_contract t self code args) = Inl x"
  with deploy_contract_returns [OF None] show ?thesis by auto
next
  case (Some e)
  assume "fst (deploy_contract t self code args) = Inl x"
  with deploy_contract_failure [OF Some] deploy_contract_propagates [OF Some]
  show ?thesis by (cases "is_Exception (exn_type e)") auto
qed

lemma deploy_contract_client:
  "snd (deploy_contract t self code args) =
     with_request self (deploy_request (config self) code args)"
  by (simp add: deploy_contract_def deploy_request_def transport_defs)

lemma query_contract_failure:
  "failure_of (reply t self (query_request (config self) a m args)) [''result''] = Some e \<Longrightarrow>
   is_Exception (exn_type e) \<Longrightarrow>
   fst (query_contract t self a m args) =
     Inr \<lparr>success = False, data = JNull, error = Some (str e)\<rparr>"
  by (auto simp: query_contract_def query_request_def transport_defs
           split: sum.splits option.splits)

lemma query_contract_propagates:
  "failure_of (reply t self (query_request (config self) a m args)) [''result''] = Some e \<Longrightarrow>
   \<not> is_Exception (exn_type e) \<Longrightarrow>
   fst (query_contract t self a m args) = Inl e"
  by (auto simp: query_contract_def query_request_def transport_defs
           split: sum.splits option.splits)

lemma query_contract_good:
  "reply t self (query_request (config self) a m args) = Inr resp \<Longrightarrow>
   raise_for_status resp = Inr () \<Longrightarrow> body resp = Inr d \<Longrightarrow> getitem d ''result'' = Inr v \<Longrightarrow>
   fst (query_contract t self a m args) = Inr \<lparr>success = True, data = v, error = None\<rparr>"
  by (simp add: query_contract_def query_request_def transport_defs)

lemma query_contract_success:
  "failure_of (reply t self (query_request (config self) a m args)) [''result''] = None \<Longrightarrow>
   \<exists>resp d v. reply t self (query_request (config self) a m args) = Inr resp \<and>
      raise_for_status resp = Inr () \<and> body resp = Inr d \<and> getitem d ''result'' = Inr v \<and>
      fst (query_contract t self a m args) = Inr \<lparr>success = True, data = v, error = None\<rparr>"
  by (auto simp: query_contract_def query_request_def transport_defs
           split: sum.splits option.splits)

lemma query_contract_client:
  "snd (query_contract t self a m args) =
     with_request self (query_request (config self) a m args)"
  by (simp add: query_contract_def query_request_def transport_defs)

lemma execute_transaction_no_key:
  "\<not> truthy (optional_str (private_key (config self))) \<Longrightarrow>
   execute_transaction t self a m args v =
     (Inl (Exn RuntimeError ''Private key required for transactions''), self)"
  by (simp add: execute_transaction_def)

lemma execute_transaction_failure:
  "truthy (optional_str (private_key (config self))) \<Longrightarrow>
   failure_of (reply t self (execute_request (config self) a m args v))
     [''txHash'', ''blockNumber'', ''gasUsed''] = Some e \<Longrightarrow>
   is_Exception (exn_type e) \<Longrightarrow>
   fst (execute_transaction t self a m args v) =
     Inl (Exn RuntimeError (''Transaction execution failed: '' @ str e))"
  by (auto simp: execute_transaction_def execute_request_def transport_defs
           split: sum.splits option.splits)

lemma execute_transaction_propagates:
  "truthy (optional_str (private_key (config self))) \<Longrightarrow>
   failure_of (reply t self (execute_request (config self) a m args v))
     [''txHash'', ''blockNumber'', ''gasUsed''] = Some e \<Longrightarrow>
   \<not> is_Exception (exn_type e) \<Longrightarrow>
   fst (execute_transaction t self a m args v) = Inl e"
  by (auto simp: execute_transaction_def execute_request_def transport_defs
           split: sum.splits option.splits)

lemma execute_transaction_good:
  "truthy (optional_str (private_key (config self))) \<Longrightarrow>
   reply t self (execute_request (config self) a m args v) = Inr resp \<Longrightarrow>
   raise_for_status resp = Inr () \<Longrightarrow> body resp = Inr d \<Longrightarrow>
   getitem d ''txHash'' = Inr h \<Longrightarrow> getitem d ''blockNumber'' = Inr b \<Longrightarrow>
   getitem d ''gasUsed'' = Inr g \<Longrightarrow>
   fst (execute_transaction t self a m args v) =
     Inr \<lparr>tx_hash = h, tx_block_number = b, gas_used = g, tx_success = True\<rparr>"
  by (simp add: execute_transaction_def execute_request_def transport_defs)

lemma execute_transaction_returns:
  "truthy (optional_str (private_key (config self))) \<Longrightarrow>
   failure_of (reply t self (execute_request (config self) a m args v))
     [''txHash'', ''blockNumber'', ''gasUsed''] = None \<Longrightarrow>
   \<exists>r. fst (execute_transaction t self a m args v) = Inr r"
  by (auto simp: execute_transaction_def execute_request_def transport_defs
           split: sum.splits option.splits)

lemma execute_transaction_raises:
  "fst (execute_transaction t self a m args v) = Inl x \<Longrightarrow>
   exn_type x = RuntimeError \<or> \<not> is_Exception (exn_type x)"
proof (cases "truthy (optional_str (private_key (config self)))")
  case False
  assume "fst (execute_transaction t self a m args v) = Inl x"
  with execute_transaction_no_key [OF False] show ?thesis by auto
next
  case k: True
  assume x: "fst (execute_transaction t self a m args v) = Inl x"
  show ?thesis
  proof (cases "failure_of (reply t self (execute_request (config self) a m args v))
     [''txHash'', ''blockNumber'', ''gasUsed'']")
    case None
    with execute_transaction_returns [OF k None] x show ?thesis by auto
  next
    case (Some e)
    with execute_transaction_failure [OF k Some] execute_transaction_propagates [OF k Some] x
    show ?thesis by (cases "is_Exception (exn_type e)") auto
  qed
qed

lemma execute_transaction_client:
  "snd (execute_transaction t self a m args v) =
     (if truthy (optional_str (private_key (config self)))
      then with_request self (execute_request (config self) a m args v) else self)"
  by (simp add: execute_transaction_def execute_request_def transport_defs)

lemma get_transaction_receipt_failure:
  "failure_of (reply t self (receipt_request (config self) txh))
     [] = Some e \<Longrightarrow>
   is_Exception (exn_type e) \<Longrightarrow>
   fst (get_transaction_receipt t self txh) =
     Inl (Exn RuntimeError (''Failed to get transaction receipt: '' @ str e))"
  by (auto simp: get_transaction_receipt_def receipt_request_def transport_defs
           split: sum.splits option.splits)

lemma get_transaction_receipt_propagates:
  "failure_of (reply t self (receipt_request (config self) txh))
     [] = Some e \<Longrightarrow>
   \<not> is_Exception (exn_type e) \<Longrightarrow>
   fst (get_transaction_receipt t self txh) = Inl e"
  by (auto simp: get_transaction_receipt_def receipt_request_def transport_defs
           split: sum.splits option.splits)

lemma get_transaction_receipt_returns:
  "failure_of (reply t self (receipt_request (config self) txh))
     [] = None \<Longrightarrow>
   \<exists>v. fst (get_transaction_receipt t self txh) = Inr v"
  by (auto simp: get_transaction_receipt_def receipt_request_def transport_defs
           split: sum.splits option.splits)

lemma get_transaction_receipt_raises:
  "fst (get_transaction_receipt t self txh) = Inl x \<Longrightarrow>
   exn_type x = RuntimeError \<or> \<not> is_Exception (exn_type x)"
proof (cases "failure_of (reply t self (receipt_request (config self) txh))
     []")
  case None
  assume "fst (get_transaction_receipt t self txh) = Inl x"
  with get_transaction_receipt_returns [OF None] show ?thesis by auto
next
  case (Some e)
  assume "fst (get_transaction_receipt t self txh) = Inl x"
  with get_transaction_receipt_failure [OF Some] get_transaction_receipt_propagates [OF Some]
  show ?thesis by (cases "is_Exception (exn_type e)") auto
qed

lemma get_transaction_receipt_client:
  "snd (get_transaction_receipt t self txh) =
     with_request self (receipt_request (config self) txh)"
  by (simp add: get_transaction_receipt_def receipt_request_def transport_defs)

lemma get_balance_failure:
  "failure_of (reply t self (balance_request (config self) address))
     [''balance''] = Some e \<Longrightarrow>
   is_Exception (exn_type e) \<Longrightarrow>
   fst (get_balance t self address) =
     Inl (Exn RuntimeError (''Failed to get balance: '' @ str e))"
  by (auto simp: get_balance_def balance_request_def transport_defs
           split: sum.splits option.splits)

lemma get_balance_propagates:
  "failure_of (reply t self (balance_request (config self) address))
     [''balance''] = Some e \<Longrightarrow>
   \<not> is_Exception (exn_type e) \<Longrightarrow>
   fst (get_balance t self address) = Inl e"
  by (auto simp: get_balance_def balance_request_def transport_defs
           split: sum.splits option.splits)

lemma get_balance_returns:
  "failure_of (reply t self (balance_request (config self) address))
     [''balance''] = None \<Longrightarrow>
   \<exists>v. fst (get_balance t self address) = Inr v"
  by (auto simp: get_balance_def balance_request_def transport_defs
           split: sum.splits option.splits)

lemma get_balance_raises:
  "fst (get_balance t self address) = Inl x \<Longrightarrow>
   exn_type x = RuntimeError \<or> \<not> is_Exception (exn_type x)"
proof (cases "failure_of (reply t self (balance_request (config self) address))
     [''balance'']")
  case None
  assume "fst (get_balance t self address) = Inl x"
  with get_balance_returns [OF None] show ?thesis by auto
next
  case (Some e)
  assume "fst (get_balance t self address) = Inl x"
  with get_balance_failure [OF Some] get_balance_propagates [OF Some]
  show ?thesis by (cases "is_Exception (exn_type e)") auto
qed

lemma get_balance_client:
  "snd (get_balance t self address) =
     with_request self (balance_request (config self) address)"
  by (simp add: get_balance_def balance_request_def transport_defs)

lemma estimate_gas_failure:
  "failure_of (reply t self (estimate_gas_request (config self) a m args))
     [''gasEstimate''] = Some e \<Longrightarrow>
   is_Exception (exn_type e) \<Longrightarrow>
   fst (estimate_gas t self a m args) =
     Inl (Exn RuntimeError (''Failed to estimate gas: '' @ str e))"
  by (auto simp: estimate_gas_def estimate_gas_request_def transport_defs
           split: sum.splits option.splits)

lemma estimate_gas_propagates:
  "failure_of (reply t self (estimate_gas_request (config self) a m args))
     [''gasEstimate''] = Some e \<Longrightarrow>
   \<not> is_Exception (exn_type e) \<Longrightarrow>
   fst (estimate_gas t self a m args) = Inl e"
  by (auto simp: estimate_gas_def estimate_gas_request_def transport_defs
           split: sum.splits option.splits)

lemma estimate_gas_returns:
  "failure_of (reply t self (estimate_gas_request (config self) a m args))
     [''gasEstimate''] = None \<Longrightarrow>
   \<exists>v. fst (estimate_gas t self a m args) = Inr v"
  by (auto simp: estimate_gas_def estimate_gas_request_def transport_defs
           split: sum.splits option.splits)

lemma estimate_gas_raises:
  "fst (estimate_gas t self a m args) = Inl x \<Longrightarrow>
   exn_type x = RuntimeError \<or> \<not> is_Exception (exn_type x)"
proof (cases "failure_of (reply t self (estimate_gas_request (config self) a m args))
     [''gasEstimate'']")
  case None
  assume "fst (estimate_gas t self a m args) = Inl x"
  with estimate_gas_returns [OF None] show ?thesis by auto
next
  case (Some e)
  assume "fst (estimate_gas t self a m args) = Inl x"
  with estimate_gas_failure [OF Some] estimate_gas_propagates [OF Some]
  show ?thesis by (cases "is_Exception (exn_type e)") auto
qed

lemma estimate_gas_client:
  "snd (estimate_gas t self a m args) =
     with_request self (estimate_gas_request (config self) a m args)"
  by (simp add: estimate_gas_def estimate_gas_request_def transport_defs)

lemma config_with_request [simp]: "config (with_request c r) = config c"
  by (simp add: with_request_def)

lemma sent_with_request [simp]: "sent (session (with_request c r)) = sent (session c) @ [r]"
  by (simp add: with_request_def)

subsection \<open>The mocked transports\<close>

lemma reply_mock_status:
  "reply (mock_status code phrase j) c r =
     Inr \<lparr>status_code = code, reason = phrase, response_url = url r, body = Inr j\<rparr>"
  by (simp add: reply_def mock_status_def)

lemma reply_mock_reply:
  "reply (mock_reply j) c r =
     Inr \<lparr>status_code = 200, reason = ''OK'', response_url = url r, body = Inr j\<rparr>"
  by (simp add: mock_reply_def reply_mock_status)

lemma reply_mock_connection_error:
  "reply (mock_connection_error m) c r = Inl (Exn ConnectionError m)"
  by (simp add: reply_def mock_connection_error_def)

lemma reply_mock_interrupt:
  "reply mock_interrupt c r = Inl (Exn KeyboardInterrupt [])"
  by (simp add: reply_def mock_interrupt_def)

section \<open>The claims\<close>

subsection \<open>C1: queries report failure in band\<close>

text \<open>
  C1, as the code has it. Take any input and any behaviour of the transport, and let the
  reply fail with the exception \<open>e\<close>: the request raises \<open>e\<close>, or the status code is from
  400 to 599 and \<^verbatim>\<open>raise_for_status()\<close> raises \<open>e\<close>, or the body is not JSON, or \<^verbatim>\<open>result\<close>
  cannot be read from the document.
  \<^item> When \<open>e\<close> is an instance of \<^verbatim>\<open>Exception\<close>, \<open>query_contract\<close> returns
    \<^verbatim>\<open>QueryResult(success=False, data=None, error=str(e))\<close>: the error string is the text
    of the exception, empty when that text is.
  \<^item> When \<open>e\<close> is not an instance of \<^verbatim>\<open>Exception\<close> (\<^verbatim>\<open>KeyboardInterrupt\<close>, \<^verbatim>\<open>SystemExit\<close>),
    \<open>query_contract\<close> raises \<open>e\<close> itself.
  \<^item> When the reply does not fail, the result is \<^verbatim>\<open>QueryResult(success=True, data=v)\<close> for
    the document's \<^verbatim>\<open>result\<close> field \<open>v\<close>.
  \<^item> So \<open>query_contract\<close> returns and does not raise whenever the reply fails, if at all,
    with an instance of \<^verbatim>\<open>Exception\<close>.
  \<^item> A status code from 400 to 599 gives \<^verbatim>\<open>success=False\<close> with the library's message, which
    is not empty; a document that is an object without the key \<^verbatim>\<open>result\<close> gives the error
    text \<^verbatim>\<open>'result'\<close>.
  \<^item> Any other status code, 2xx or not, with a document that has the field \<^verbatim>\<open>result\<close> is a
    success.
\<close>

theorem query_contract_in_band:
  "(\<forall>e. failure_of (reply t self (query_request (config self) a m args)) [''result''] = Some e \<and>
        is_Exception (exn_type e) \<longrightarrow>
        fst (query_contract t self a m args) =
          Inr \<lparr>success = False, data = JNull, error = Some (str e)\<rparr>) \<and>
   (\<forall>e. failure_of (reply t self (query_request (config self) a m args)) [''result''] = Some e \<and>
        \<not> is_Exception (exn_type e) \<longrightarrow>
        fst (query_contract t self a m args) = Inl e) \<and>
   (failure_of (reply t self (query_request (config self) a m args)) [''result''] = None \<longrightarrow>
      (\<exists>resp d v. reply t self (query_request (config self) a m args) = Inr resp \<and>
         raise_for_status resp = Inr () \<and> body resp = Inr d \<and> getitem d ''result'' = Inr v \<and>
         fst (query_contract t self a m args) =
           Inr \<lparr>success = True, data = v, error = None\<rparr>)) \<and>
   ((\<forall>e. failure_of (reply t self (query_request (config self) a m args)) [''result''] = Some e \<longrightarrow>
         is_Exception (exn_type e)) \<longrightarrow>
      (\<exists>r. fst (query_contract t self a m args) = Inr r)) \<and>
   (\<forall>resp. reply t self (query_request (config self) a m args) = Inr resp \<and>
        400 \<le> status_code resp \<and> status_code resp < 600 \<longrightarrow>
        http_error_msg resp \<noteq> [] \<and>
        fst (query_contract t self a m args) =
          Inr \<lparr>success = False, data = JNull, error = Some (http_error_msg resp)\<rparr>) \<and>
   (\<forall>resp kvs. reply t self (query_request (config self) a m args) = Inr resp \<and>
        (status_code resp < 400 \<or> 600 \<le> status_code resp) \<and>
        body resp = Inr (JObj kvs) \<and> map_of kvs ''result'' = None \<longrightarrow>
        fst (query_contract t self a m args) =
          Inr \<lparr>success = False, data = JNull, error = Some (squote @ ''result'' @ squote)\<rparr>) \<and>
   (\<forall>resp d v. reply t self (query_request (config self) a m args) = Inr resp \<and>
        (status_code resp < 400 \<or> 600 \<le> status_code resp) \<and>
        body resp = Inr d \<and> getitem d ''result'' = Inr v \<longrightarrow>
        fst (query_contract t self a m args) =
          Inr \<lparr>success = True, data = v, error = None\<rparr>)"
proof -
  let ?f = "failure_of (reply t self (query_request (config self) a m args)) [''result'']"
  let ?q = "fst (query_contract t self a m args)"
  have c1: "?q = Inr \<lparr>success = False, data = JNull, error = Some (str e)\<rparr>"
    if "?f = Some e \<and> is_Exception (exn_type e)" for e
    using that by (simp add: query_contract_failure)
  have c2: "?q = Inl e" if "?f = Some e \<and> \<not> is_Exception (exn_type e)" for e
    using that by (simp add: query_contract_propagates)
  have c3: "\<exists>resp d v. reply t self (query_request (config self) a m args) = Inr resp \<and>
         raise_for_status resp = Inr () \<and> body resp = Inr d \<and> getitem d ''result'' = Inr v \<and>
         ?q = Inr \<lparr>success = True, data = v, error = None\<rparr>" if "?f = None"
    using that by (rule query_contract_success)
  have c4: "\<exists>r. ?q = Inr r" if all: "\<forall>e. ?f = Some e \<longrightarrow> is_Exception (exn_type e)"
  proof (cases ?f)
    case None
    from c3 [OF None] show ?thesis by blast
  next
    case (Some e)
    with all have "is_Exception (exn_type e)" by simp
    with Some c1 [of e] show ?thesis by simp
  qed
  have c5: "http_error_msg resp \<noteq> [] \<and>
        ?q = Inr \<lparr>success = False, data = JNull, error = Some (http_error_msg resp)\<rparr>"
    if h: "reply t self (query_request (config self) a m args) = Inr resp \<and>
        400 \<le> status_code resp \<and> status_code resp < 600" for resp
  proof -
    from h have "?f = Some (Exn HTTPError (http_error_msg resp))"
      by (simp add: failure_of_refused)
    with c1 [of "Exn HTTPError (http_error_msg resp)"] h show ?thesis
      by (simp add: http_error_msg_refused)
  qed
  have c6: "?q = Inr \<lparr>success = False, data = JNull, error = Some (squote @ ''result'' @ squote)\<rparr>"
    if h: "reply t self (query_request (config self) a m args) = Inr resp \<and>
        (status_code resp < 400 \<or> 600 \<le> status_code resp) \<and>
        body resp = Inr (JObj kvs) \<and> map_of kvs ''result'' = None" for resp kvs
  proof -
    from h have "?f = Some (Exn KeyError (squote @ ''result'' @ squote))"
      by (simp add: failure_of_passes)
    with c1 [of "Exn KeyError (squote @ ''result'' @ squote)"] show ?thesis
      by simp
  qed
  have c7: "?q = Inr \<lparr>success = True, data = v, error = None\<rparr>"
    if h: "reply t self (query_request (config self) a m args) = Inr resp \<and>
        (status_code resp < 400 \<or> 600 \<le> status_code resp) \<and>
        body resp = Inr d \<and> getitem d ''result'' = Inr v" for resp d v
  proof -
    from h have "raise_for_status resp = Inr ()"
      by (simp add: raise_for_status_passes)
    with h show ?thesis
      by (simp add: query_contract_good)
  qed
  from c1 c2 c3 c4 c5 c6 c7 show ?thesis
    by blast
qed

text \<open>
  The theorem at a connection error, at an interrupt, at a 404, at a document without
  the field, and at a good reply.
\<close>

theorem query_contract_in_band_witness:
  "fst (query_contract (mock_connection_error ''connection refused'')
         (AgefixClient_init config_no_key) (JStr ''0xabc'') ''getValue'' None) =
     Inr \<lparr>success = False, data = JNull, error = Some ''connection refused''\<rparr> \<and>
   fst (query_contract mock_interrupt
         (AgefixClient_init config_no_key) (JStr ''0xabc'') ''getValue'' None) =
     Inl (Exn KeyboardInterrupt []) \<and>
   fst (query_contract (mock_status 404 ''Not Found'' (JObj []))
         (AgefixClient_init config_no_key) (JStr ''0xabc'') ''getValue'' None) =
     Inr \<lparr>success = False, data = JNull,
          error = Some ''404 Client Error: Not Found for url: https://rpc.agefix.com/query''\<rparr> \<and>
   fst (query_contract (mock_reply (JObj [(''other'', JInt 1)]))
         (AgefixClient_init config_no_key) (JStr ''0xabc'') ''getValue'' None) =
     Inr \<lparr>success = False, data = JNull, error = Some (squote @ ''result'' @ squote)\<rparr> \<and>
   fst (query_contract (mock_reply query_document)
         (AgefixClient_init config_no_key) (JStr ''0xabc'') ''getValue'' None) =
     Inr \<lparr>success = True, data = JStr ''500'', error = None\<rparr>"
proof -
  let ?c = "AgefixClient_init config_no_key"
  let ?q = "query_request (config ?c) (JStr ''0xabc'') ''getValue'' None"
  have u: "url ?q = ''https://rpc.agefix.com/query''"
    by (simp add: query_request_def AgefixClient_init_def config_no_key_def)
  have f1: "failure_of (reply (mock_connection_error ''connection refused'') ?c ?q) [''result'']
        = Some (Exn ConnectionError ''connection refused'') \<and>
      is_Exception (exn_type (Exn ConnectionError ''connection refused''))"
    by (simp add: failure_of_def reply_mock_connection_error)
  have f2: "failure_of (reply mock_interrupt ?c ?q) [''result''] = Some (Exn KeyboardInterrupt []) \<and>
      \<not> is_Exception (exn_type (Exn KeyboardInterrupt []))"
    by (simp add: failure_of_def reply_mock_interrupt)
  let ?r3 = "\<lparr>status_code = 404, reason = ''Not Found'', response_url = url ?q,
             body = Inr (JObj [])\<rparr>"
  have f3: "reply (mock_status 404 ''Not Found'' (JObj [])) ?c ?q = Inr ?r3 \<and>
      400 \<le> status_code ?r3 \<and> status_code ?r3 < 600"
    by (simp add: reply_mock_status)
  have m3: "http_error_msg ?r3 = ''404 Client Error: Not Found for url: https://rpc.agefix.com/query''"
    by (simp add: http_error_msg_def u str_int_def str_nat.simps)
  let ?r4 = "\<lparr>status_code = 200, reason = ''OK'', response_url = url ?q,
             body = Inr (JObj [(''other'', JInt 1)])\<rparr>"
  have f4: "reply (mock_reply (JObj [(''other'', JInt 1)])) ?c ?q = Inr ?r4 \<and>
      (status_code ?r4 < 400 \<or> 600 \<le> status_code ?r4) \<and>
      body ?r4 = Inr (JObj [(''other'', JInt 1)]) \<and>
      map_of [(''other'', JInt 1)] ''result'' = None"
    by (simp add: reply_mock_reply)
  let ?r5 = "\<lparr>status_code = 200, reason = ''OK'', response_url = url ?q,
             body = Inr query_document\<rparr>"
  have f5: "reply (mock_reply query_document) ?c ?q = Inr ?r5 \<and>
      (status_code ?r5 < 400 \<or> 600 \<le> status_code ?r5) \<and>
      body ?r5 = Inr query_document \<and> getitem query_document ''result'' = Inr (JStr ''500'')"
    by (simp add: reply_mock_reply query_document_def)
  note i1 = query_contract_in_band
    [of "mock_connection_error ''connection refused''" ?c "JStr ''0xabc''" "''getValue''" None]
  note i2 = query_contract_in_band
    [of mock_interrupt ?c "JStr ''0xabc''" "''getValue''" None]
  note i3 = query_contract_in_band
    [of "mock_status 404 ''Not Found'' (JObj [])" ?c "JStr ''0xabc''" "''getValue''" None]
  note i4 = query_contract_in_band
    [of "mock_reply (JObj [(''other'', JInt 1)])" ?c "JStr ''0xabc''" "''getValue''" None]
  note i5 = query_contract_in_band
    [of "mock_reply query_document" ?c "JStr ''0xabc''" "''getValue''" None]
  have w1: "fst (query_contract (mock_connection_error ''connection refused'') ?c
             (JStr ''0xabc'') ''getValue'' None) =
     Inr \<lparr>success = False, data = JNull, error = Some ''connection refused''\<rparr>"
    using i1 f1 by (metis exn.sel(2))
  have w2: "fst (query_contract mock_interrupt ?c (JStr ''0xabc'') ''getValue'' None) =
     Inl (Exn KeyboardInterrupt [])"
    using i2 f2 by blast
  have "fst (query_contract (mock_status 404 ''Not Found'' (JObj [])) ?c
             (JStr ''0xabc'') ''getValue'' None) =
     Inr \<lparr>success = False, data = JNull, error = Some (http_error_msg ?r3)\<rparr>"
    using i3 f3 by blast
  then have w3: "fst (query_contract (mock_status 404 ''Not Found'' (JObj [])) ?c
             (JStr ''0xabc'') ''getValue'' None) =
     Inr \<lparr>success = False, data = JNull,
          error = Some ''404 Client Error: Not Found for url: https://rpc.agefix.com/query''\<rparr>"
    by (simp only: m3)
  have w4: "fst (query_contract (mock_reply (JObj [(''other'', JInt 1)])) ?c
             (JStr ''0xabc'') ''getValue'' None) =
     Inr \<lparr>success = False, data = JNull, error = Some (squote @ ''result'' @ squote)\<rparr>"
    using i4 f4 by blast
  have w5: "fst (query_contract (mock_reply query_document) ?c
             (JStr ''0xabc'') ''getValue'' None) =
     Inr \<lparr>success = True, data = JStr ''500'', error = None\<rparr>"
    using i5 f5 by blast
  from w1 w2 w3 w4 w5 show ?thesis by blast
qed

text \<open>
  The claim as stated has the query never raise, count every non-2xx status as a failure,
  and give a non-empty error string on every failure. A connection error raised with no
  message has the empty text, and that is the error returned; a keyboard interrupt
  during the request leaves \<open>query_contract\<close> as the exception it is; and a reply with
  status 302 and a document with the field \<^verbatim>\<open>result\<close> is returned as a success.
\<close>

theorem query_contract_counterexample:
  "fst (query_contract (mock_connection_error [])
         (AgefixClient_init config_no_key) (JStr ''0xabc'') ''getValue'' None) =
     Inr \<lparr>success = False, data = JNull, error = Some []\<rparr> \<and>
   fst (query_contract mock_interrupt
         (AgefixClient_init config_no_key) (JStr ''0xabc'') ''getValue'' None) =
     Inl (Exn KeyboardInterrupt []) \<and>
   fst (query_contract (mock_status 302 ''Found'' query_document)
         (AgefixClient_init config_no_key) (JStr ''0xabc'') ''getValue'' None) =
     Inr \<lparr>success = True, data = JStr ''500'', error = None\<rparr>"
proof -
  let ?c = "AgefixClient_init config_no_key"
  have w1: "fst (query_contract (mock_connection_error []) ?c (JStr ''0xabc'') ''getValue'' None) =
     Inr \<lparr>success = False, data = JNull, error = Some []\<rparr>"
    using query_contract_failure [of "mock_connection_error []" ?c "JStr ''0xabc''"
        "''getValue''" None "Exn ConnectionError []"]
    by (simp add: failure_of_def reply_mock_connection_error)
  have w2: "fst (query_contract mock_interrupt ?c (JStr ''0xabc'') ''getValue'' None) =
     Inl (Exn KeyboardInterrupt [])"
    using query_contract_propagates [of mock_interrupt ?c "JStr ''0xabc''"
        "''getValue''" None "Exn KeyboardInterrupt []"]
    by (simp add: failure_of_def reply_mock_interrupt)
  have w3: "fst (query_contract (mock_status 302 ''Found'' query_document) ?c
               (JStr ''0xabc'') ''getValue'' None) =
     Inr \<lparr>success = True, data = JStr ''500'', error = None\<rparr>"
    by (rule query_contract_good [OF reply_mock_status, where d = query_document])
       (simp_all add: raise_for_status_passes query_document_def)
  from w1 w2 w3 show ?thesis by blast
qed

subsection \<open>C2: no signing key, no request\<close>

text \<open>
  C2. When no signing key is configured (the key is \<^verbatim>\<open>None\<close>, or the empty string, which
  the test \<^verbatim>\<open>if not self.config.private_key\<close> treats alike), \<open>execute_transaction\<close> raises
  \<^verbatim>\<open>RuntimeError("Private key required for transactions")\<close> and leaves the client as it
  was, whatever the transport, the address, the method, the arguments and the value:
  no request is attempted, the session's list of requests is the one before the call.
\<close>

theorem execute_transaction_requires_key:
  "private_key (config self) = None \<or> private_key (config self) = Some '''' \<Longrightarrow>
   execute_transaction t self a m args v =
     (Inl (Exn RuntimeError ''Private key required for transactions''), self) \<and>
   sent (session (snd (execute_transaction t self a m args v))) = sent (session self)"
proof -
  assume "private_key (config self) = None \<or> private_key (config self) = Some ''''"
  then have "\<not> truthy (optional_str (private_key (config self)))"
    by auto
  then show ?thesis
    by (simp add: execute_transaction_no_key)
qed

text \<open>A client built from a configuration without a key: after the call, no request at all.\<close>

theorem execute_transaction_requires_key_witness:
  "execute_transaction (mock_reply execute_document) (AgefixClient_init config_no_key)
       (JStr ''0xabc'') ''transfer'' (Some [JStr ''0xuser'', JStr ''100'']) ''0'' =
     (Inl (Exn RuntimeError ''Private key required for transactions''),
      AgefixClient_init config_no_key) \<and>
   sent (session (snd (execute_transaction (mock_reply execute_document)
       (AgefixClient_init config_no_key)
       (JStr ''0xabc'') ''transfer'' (Some [JStr ''0xuser'', JStr ''100'']) ''0''))) = []"
proof -
  have k: "private_key (config (AgefixClient_init config_no_key)) = None \<or>
           private_key (config (AgefixClient_init config_no_key)) = Some ''''"
    by (simp add: AgefixClient_init_def config_no_key_def)
  have s: "sent (session (AgefixClient_init config_no_key)) = []"
    by (simp add: AgefixClient_init_def)
  from execute_transaction_requires_key [OF k, of "mock_reply execute_document"
      "JStr ''0xabc''" "''transfer''" "Some [JStr ''0xuser'', JStr ''100'']" "''0''"] s
  show ?thesis by simp
qed

subsection \<open>C3: the helpers' address check\<close>

text \<open>
  C3, as the code has it. The helpers test the stored address with \<^verbatim>\<open>if not
  self.contract_address\<close>: an address that is \<^verbatim>\<open>None\<close> or otherwise falsy (the empty
  string) makes \<open>balance_of\<close>, \<open>transfer\<close>, \<open>approve\<close>, \<open>mint\<close> and \<open>owner_of\<close> raise
  \<^verbatim>\<open>RuntimeError("Contract not deployed")\<close> at once, the helper and the client left as they
  were, so no request is attempted. With a truthy address (any non-empty string) each
  method is the call of \<open>query_contract\<close> or \<open>execute_transaction\<close> with the stored
  address, its fixed method name and the list of its arguments in order (and the default
  value \<^verbatim>\<open>"0"\<close>); the two queries return the result's \<^verbatim>\<open>data\<close>.
\<close>

theorem helper_methods_check_address:
  "(\<not> truthy (token_address tok) \<longrightarrow>
      TokenContract_balance_of t tok c address = (Inl (Exn RuntimeError ''Contract not deployed''), tok, c) \<and>
      TokenContract_transfer t tok c to amount = (Inl (Exn RuntimeError ''Contract not deployed''), tok, c) \<and>
      TokenContract_approve t tok c spender amount = (Inl (Exn RuntimeError ''Contract not deployed''), tok, c)) \<and>
   (\<not> truthy (nft_address nft) \<longrightarrow>
      NFTContract_mint t nft c to uri = (Inl (Exn RuntimeError ''Contract not deployed''), nft, c) \<and>
      NFTContract_owner_of t nft c token_id = (Inl (Exn RuntimeError ''Contract not deployed''), nft, c)) \<and>
   (truthy (token_address tok) \<longrightarrow>
      TokenContract_balance_of t tok c address =
        (case query_contract t c (token_address tok) ''balanceOf'' (Some [JStr address]) of
           (r, c') \<Rightarrow> (map_sum id data r, tok, c')) \<and>
      TokenContract_transfer t tok c to amount =
        (case execute_transaction t c (token_address tok) ''transfer''
                (Some [JStr to, JStr amount]) ''0'' of
           (r, c') \<Rightarrow> (r, tok, c')) \<and>
      TokenContract_approve t tok c spender amount =
        (case execute_transaction t c (token_address tok) ''approve''
                (Some [JStr spender, JStr amount]) ''0'' of
           (r, c') \<Rightarrow> (r, tok, c'))) \<and>
   (truthy (nft_address nft) \<longrightarrow>
      NFTContract_mint t nft c to uri =
        (case execute_transaction t c (nft_address nft) ''mint''
                (Some [JStr to, JStr uri]) ''0'' of
           (r, c') \<Rightarrow> (r, nft, c')) \<and>
      NFTContract_owner_of t nft c token_id =
        (case query_contract t c (nft_address nft) ''ownerOf'' (Some [JInt token_id]) of
           (r, c') \<Rightarrow> (map_sum id data r, nft, c')))"
  by (auto simp: TokenContract_balance_of_def TokenContract_transfer_def
        TokenContract_approve_def NFTContract_mint_def NFTContract_owner_of_def
        not_deployed_def split: prod.splits sum.splits)

text \<open>
  A helper with no address raises and sends nothing; a helper with the address
  \<^verbatim>\<open>"0xabc"\<close> sends the query for \<^verbatim>\<open>balanceOf\<close> with that address and the argument list.
\<close>

theorem helper_methods_check_address_witness:
  "TokenContract_balance_of (mock_reply query_document) (TokenContract_init JNull)
       (AgefixClient_init config_with_key) ''0xuser'' =
     (Inl (Exn RuntimeError ''Contract not deployed''), TokenContract_init JNull,
      AgefixClient_init config_with_key) \<and>
   NFTContract_mint (mock_reply execute_document) (NFTContract_init JNull)
       (AgefixClient_init config_with_key) ''0xuser'' ''ipfs://metadata-uri'' =
     (Inl (Exn RuntimeError ''Contract not deployed''), NFTContract_init JNull,
      AgefixClient_init config_with_key) \<and>
   TokenContract_balance_of (mock_reply query_document) (TokenContract_init (JStr ''0xabc''))
       (AgefixClient_init config_with_key) ''0xuser'' =
     (Inr (JStr ''500''), TokenContract_init (JStr ''0xabc''),
      with_request (AgefixClient_init config_with_key)
        (query_request config_with_key (JStr ''0xabc'') ''balanceOf'' (Some [JStr ''0xuser''])))"
proof -
  let ?c = "AgefixClient_init config_with_key"
  have n1: "\<not> truthy (token_address (TokenContract_init JNull))"
    by (simp add: TokenContract_init_def)
  have n2: "\<not> truthy (nft_address (NFTContract_init JNull))"
    by (simp add: NFTContract_init_def)
  have y: "truthy (token_address (TokenContract_init (JStr ''0xabc'')))"
    by (simp add: TokenContract_init_def)
  have cfg: "config ?c = config_with_key"
    by (simp add: AgefixClient_init_def)
  have q1: "fst (query_contract (mock_reply query_document) ?c
               (token_address (TokenContract_init (JStr ''0xabc''))) ''balanceOf''
               (Some [JStr ''0xuser''])) =
            Inr \<lparr>success = True, data = JStr ''500'', error = None\<rparr>"
    by (rule query_contract_good [OF reply_mock_reply, where d = query_document])
       (simp_all add: raise_for_status_passes query_document_def)
  have q2: "snd (query_contract (mock_reply query_document) ?c
               (token_address (TokenContract_init (JStr ''0xabc''))) ''balanceOf''
               (Some [JStr ''0xuser''])) =
            with_request ?c
              (query_request config_with_key (JStr ''0xabc'') ''balanceOf'' (Some [JStr ''0xuser'']))"
    by (simp add: query_contract_client cfg TokenContract_init_def)
  have q: "query_contract (mock_reply query_document) ?c
               (token_address (TokenContract_init (JStr ''0xabc''))) ''balanceOf''
               (Some [JStr ''0xuser'']) =
           (Inr \<lparr>success = True, data = JStr ''500'', error = None\<rparr>,
            with_request ?c
              (query_request config_with_key (JStr ''0xabc'') ''balanceOf'' (Some [JStr ''0xuser''])))"
    using q1 q2 by (simp add: prod_eq_iff)
  note a = helper_methods_check_address [of "TokenContract_init JNull" "mock_reply query_document"
      ?c "''0xuser''" "''0xuser''" "''100''" "''0xuser''" "NFTContract_init JNull"
      "''ipfs://metadata-uri''" 1]
  note b = helper_methods_check_address [of "TokenContract_init JNull" "mock_reply execute_document"
      ?c "''0xuser''" "''0xuser''" "''100''" "''0xuser''" "NFTContract_init JNull"
      "''ipfs://metadata-uri''" 1]
  note d = helper_methods_check_address [of "TokenContract_init (JStr ''0xabc'')"
      "mock_reply query_document"
      ?c "''0xuser''" "''0xuser''" "''100''" "''0xuser''" "NFTContract_init JNull"
      "''ipfs://metadata-uri''" 1]
  have w1: "TokenContract_balance_of (mock_reply query_document) (TokenContract_init JNull)
       ?c ''0xuser'' =
     (Inl (Exn RuntimeError ''Contract not deployed''), TokenContract_init JNull, ?c)"
    using a n1 by blast
  have w2: "NFTContract_mint (mock_reply execute_document) (NFTContract_init JNull)
       ?c ''0xuser'' ''ipfs://metadata-uri'' =
     (Inl (Exn RuntimeError ''Contract not deployed''), NFTContract_init JNull, ?c)"
    using b n2 by blast
  have w3: "TokenContract_balance_of (mock_reply query_document) (TokenContract_init (JStr ''0xabc''))
       ?c ''0xuser'' =
     (Inr (JStr ''500''), TokenContract_init (JStr ''0xabc''),
      with_request ?c
        (query_request config_with_key (JStr ''0xabc'') ''balanceOf'' (Some [JStr ''0xuser''])))"
    using d y q by simp
  from w1 w2 w3 show ?thesis by blast
qed

text \<open>
  The claim as stated has every helper whose address is set delegate. A helper built with
  the empty string as its address has an address that is not \<^verbatim>\<open>None\<close>, and \<open>balance_of\<close>
  raises without a request all the same.
\<close>

theorem helper_empty_address_counterexample:
  "token_address (TokenContract_init (JStr '''')) \<noteq> JNull \<and>
   TokenContract_balance_of (mock_reply query_document) (TokenContract_init (JStr ''''))
       (AgefixClient_init config_with_key) ''0xuser'' =
     (Inl (Exn RuntimeError ''Contract not deployed''), TokenContract_init (JStr ''''),
      AgefixClient_init config_with_key)"
  by (simp add: TokenContract_init_def TokenContract_balance_of_def not_deployed_def)

subsection \<open>C4: the deployed address is the address used afterwards\<close>

text \<open>
  C4. Whatever document the deployment endpoint responds with, under a status that
  \<^verbatim>\<open>raise_for_status()\<close> lets pass: when its fields \<^verbatim>\<open>contractAddress\<close>, \<^verbatim>\<open>txHash\<close> and
  \<^verbatim>\<open>blockNumber\<close> are \<open>a\<close>, \<open>h\<close> and \<open>b\<close>, the token helper's \<open>deploy\<close> sends the deployment
  request, returns the deployment record with exactly \<open>a\<close>, \<open>h\<close> and \<open>b\<close>, and leaves a
  helper whose address is \<open>a\<close>. From then on, with any transport and whatever state the
  shared client is in, each of \<open>balance_of\<close>, \<open>transfer\<close> and \<open>approve\<close> leaves the helper
  as it is and, when \<open>a\<close> is truthy, sends exactly one request, whose \<^verbatim>\<open>contractAddress\<close>
  is \<open>a\<close> (\<open>transfer\<close> and \<open>approve\<close> send none when the client has no signing key; with
  a falsy \<open>a\<close> none of the three sends a request). For the response
  \<^verbatim>\<open>{"contractAddress": "0xabc", "txHash": "0x1", "blockNumber": 10}\<close> the record holds these
  three values and every later request of the helper names \<^verbatim>\<open>"0xabc"\<close>.
\<close>

theorem token_deploy_round_trip:
  "reply t c (deploy_request (config c) (token_code name symbol total_supply) None) = Inr resp \<Longrightarrow>
   status_code resp < 400 \<or> 600 \<le> status_code resp \<Longrightarrow>
   body resp = Inr d \<Longrightarrow>
   getitem d ''contractAddress'' = Inr a \<Longrightarrow>
   getitem d ''txHash'' = Inr h \<Longrightarrow>
   getitem d ''blockNumber'' = Inr b \<Longrightarrow>
   \<exists>tok'. TokenContract_deploy t tok c name symbol total_supply =
       (Inr \<lparr>contract_address = a, transaction_hash = h, block_number = b\<rparr>,
        tok',
        with_request c (deploy_request (config c) (token_code name symbol total_supply) None)) \<and>
     token_address tok' = a \<and>
     (\<forall>t2 c2 address. snd (TokenContract_balance_of t2 tok' c2 address) =
        (tok', if truthy a
               then with_request c2
                      (query_request (config c2) a ''balanceOf'' (Some [JStr address]))
               else c2)) \<and>
     (\<forall>t2 c2 to amount. snd (TokenContract_transfer t2 tok' c2 to amount) =
        (tok', if truthy a \<and> truthy (optional_str (private_key (config c2)))
               then with_request c2
                      (execute_request (config c2) a ''transfer''
                         (Some [JStr to, JStr amount]) ''0'')
               else c2)) \<and>
     (\<forall>t2 c2 spender amount. snd (TokenContract_approve t2 tok' c2 spender amount) =
        (tok', if truthy a \<and> truthy (optional_str (private_key (config c2)))
               then with_request c2
                      (execute_request (config c2) a ''approve''
                         (Some [JStr spender, JStr amount]) ''0'')
               else c2))"
proof -
  assume p: "reply t c (deploy_request (config c) (token_code name symbol total_supply) None) = Inr resp"
    and st: "status_code resp < 400 \<or> 600 \<le> status_code resp"
    and bd: "body resp = Inr d"
    and ga: "getitem d ''contractAddress'' = Inr a"
    and gh: "getitem d ''txHash'' = Inr h"
    and gb: "getitem d ''blockNumber'' = Inr b"
  let ?d = "\<lparr>contract_address = a, transaction_hash = h, block_number = b\<rparr>"
  let ?tok = "tok\<lparr>token_address := a\<rparr>"
  have r: "fst (deploy_contract t c (token_code name symbol total_supply) None) = Inr ?d"
    by (rule deploy_contract_good [OF p raise_for_status_passes [OF st] bd ga gh gb])
  have dep: "TokenContract_deploy t tok c name symbol total_supply =
       (Inr ?d, ?tok,
        with_request c (deploy_request (config c) (token_code name symbol total_supply) None))"
    using r deploy_contract_client [of t c "token_code name symbol total_supply" None]
    by (simp add: TokenContract_deploy_def case_prod_beta)
  have ad: "token_address ?tok = a"
    by simp
  have bo: "snd (TokenContract_balance_of t2 ?tok c2 address) =
        (?tok, if truthy a
               then with_request c2
                      (query_request (config c2) a ''balanceOf'' (Some [JStr address]))
               else c2)"
    for t2 c2 address
    by (simp add: TokenContract_balance_of_def case_prod_beta query_contract_client)
  have tr: "snd (TokenContract_transfer t2 ?tok c2 to amount) =
        (?tok, if truthy a \<and> truthy (optional_str (private_key (config c2)))
               then with_request c2
                      (execute_request (config c2) a ''transfer''
                         (Some [JStr to, JStr amount]) ''0'')
               else c2)"
    for t2 c2 to amount
    by (simp add: TokenContract_transfer_def case_prod_beta execute_transaction_client)
  have ap: "snd (TokenContract_approve t2 ?tok c2 spender amount) =
        (?tok, if truthy a \<and> truthy (optional_str (private_key (config c2)))
               then with_request c2
                      (execute_request (config c2) a ''approve''
                         (Some [JStr spender, JStr amount]) ''0'')
               else c2)"
    for t2 c2 spender amount
    by (simp add: TokenContract_approve_def case_prod_beta execute_transaction_client)
  from dep ad bo tr ap show ?thesis
    by blast
qed

text \<open>
  The scenario on a fresh client with a key: the deployment of \<^verbatim>\<open>MyToken\<close> answered with
  \<^verbatim>\<open>"0xabc"\<close>, then a transfer, whose request is the second the session has seen and names
  \<^verbatim>\<open>"0xabc"\<close>.
\<close>

theorem token_deploy_round_trip_witness:
  "TokenContract_deploy (mock_reply deploy_document) (TokenContract_init JNull)
       (AgefixClient_init config_with_key) ''MyToken'' ''MTK'' ''1000000'' =
     (Inr \<lparr>contract_address = JStr ''0xabc'', transaction_hash = JStr ''0x1'',
           block_number = JInt 10\<rparr>,
      TokenContract_init (JStr ''0xabc''),
      with_request (AgefixClient_init config_with_key)
        (deploy_request config_with_key (token_code ''MyToken'' ''MTK'' ''1000000'') None)) \<and>
   snd (TokenContract_transfer (mock_reply execute_document) (TokenContract_init (JStr ''0xabc''))
          (with_request (AgefixClient_init config_with_key)
             (deploy_request config_with_key (token_code ''MyToken'' ''MTK'' ''1000000'') None))
          ''0xuser'' ''100'') =
     (TokenContract_init (JStr ''0xabc''),
      with_request
        (with_request (AgefixClient_init config_with_key)
           (deploy_request config_with_key (token_code ''MyToken'' ''MTK'' ''1000000'') None))
        (execute_request config_with_key (JStr ''0xabc'') ''transfer''
           (Some [JStr ''0xuser'', JStr ''100'']) ''0''))"
proof -
  let ?c = "AgefixClient_init config_with_key"
  let ?r = "deploy_request config_with_key (token_code ''MyToken'' ''MTK'' ''1000000'') None"
  let ?resp = "\<lparr>status_code = 200, reason = ''OK'', response_url = url ?r,
               body = Inr deploy_document\<rparr>"
  have cfg: "config ?c = config_with_key"
    by (simp add: AgefixClient_init_def)
  have p: "reply (mock_reply deploy_document) ?c
             (deploy_request (config ?c) (token_code ''MyToken'' ''MTK'' ''1000000'') None) =
           Inr ?resp"
    by (simp add: reply_mock_reply cfg)
  have st: "status_code ?resp < 400 \<or> 600 \<le> status_code ?resp"
    by simp
  have bd: "body ?resp = Inr deploy_document"
    by simp
  have ga: "getitem deploy_document ''contractAddress'' = Inr (JStr ''0xabc'')"
    and gh: "getitem deploy_document ''txHash'' = Inr (JStr ''0x1'')"
    and gb: "getitem deploy_document ''blockNumber'' = Inr (JInt 10)"
    by (simp_all add: deploy_document_def)
  have k: "truthy (JStr ''0xabc'') \<and>
           truthy (optional_str (private_key (config (with_request ?c ?r))))"
    by (simp add: AgefixClient_init_def config_with_key_def)
  have eq: "tok' = TokenContract_init (JStr ''0xabc'')" if "token_address tok' = JStr ''0xabc''"
    for tok'
    using that by (cases tok') (simp add: TokenContract_init_def)
  from token_deploy_round_trip [OF p st bd ga gh gb, of "TokenContract_init JNull"]
  obtain tok' where
    d: "TokenContract_deploy (mock_reply deploy_document) (TokenContract_init JNull) ?c
          ''MyToken'' ''MTK'' ''1000000'' =
        (Inr \<lparr>contract_address = JStr ''0xabc'', transaction_hash = JStr ''0x1'',
              block_number = JInt 10\<rparr>, tok', with_request ?c (deploy_request (config ?c)
                (token_code ''MyToken'' ''MTK'' ''1000000'') None))"
    and a: "token_address tok' = JStr ''0xabc''"
    and tr: "\<And>t2 c2 to amount. snd (TokenContract_transfer t2 tok' c2 to amount) =
        (tok', if truthy (JStr ''0xabc'') \<and> truthy (optional_str (private_key (config c2)))
               then with_request c2
                      (execute_request (config c2) (JStr ''0xabc'') ''transfer''
                         (Some [JStr to, JStr amount]) ''0'')
               else c2)"
    by blast
  have t: "tok' = TokenContract_init (JStr ''0xabc'')"
    using a by (rule eq)
  have w1: "TokenContract_deploy (mock_reply deploy_document) (TokenContract_init JNull) ?c
          ''MyToken'' ''MTK'' ''1000000'' =
        (Inr \<lparr>contract_address = JStr ''0xabc'', transaction_hash = JStr ''0x1'',
              block_number = JInt 10\<rparr>, TokenContract_init (JStr ''0xabc''), with_request ?c ?r)"
    using d t cfg by simp
  have w2: "snd (TokenContract_transfer (mock_reply execute_document)
          (TokenContract_init (JStr ''0xabc'')) (with_request ?c ?r) ''0xuser'' ''100'') =
     (TokenContract_init (JStr ''0xabc''),
      with_request (with_request ?c ?r)
        (execute_request config_with_key (JStr ''0xabc'') ''transfer''
           (Some [JStr ''0xuser'', JStr ''100'']) ''0''))"
    using tr [of "mock_reply execute_document" "with_request ?c ?r" "''0xuser''" "''100''"] t k cfg
    by simp
  from w1 w2 show ?thesis by (rule conjI)
qed

subsection \<open>C5: a good query reply reaches the caller of \<open>balance_of\<close>\<close>

text \<open>
  C5. Whatever document the query endpoint responds with, under a status that
  \<^verbatim>\<open>raise_for_status()\<close> lets pass (every 2xx status is one): when its field \<^verbatim>\<open>result\<close> is
  \<open>r\<close>, \<open>query_contract\<close> sends the query and returns \<^verbatim>\<open>QueryResult(success=True, data=r)\<close>;
  and a token helper with an address that asks for the balance of any address sends the
  query for \<^verbatim>\<open>balanceOf\<close> with that address and returns \<open>r\<close>, the \<^verbatim>\<open>data\<close> field. For the
  response \<^verbatim>\<open>{"result": "500"}\<close>, \<^verbatim>\<open>balance_of("0xuser")\<close> returns \<^verbatim>\<open>"500"\<close>. (Without an address
  the helper sends no query: that case is C3's.)
\<close>

theorem balance_of_returns_result:
  "(reply t c (query_request (config c) a m args) = Inr resp \<and>
    (status_code resp < 400 \<or> 600 \<le> status_code resp) \<and>
    body resp = Inr d \<and> getitem d ''result'' = Inr r \<longrightarrow>
      query_contract t c a m args =
        (Inr \<lparr>success = True, data = r, error = None\<rparr>,
         with_request c (query_request (config c) a m args))) \<and>
   (truthy (token_address tok) \<and>
    reply t c (query_request (config c) (token_address tok) ''balanceOf'' (Some [JStr address])) =
      Inr resp' \<and>
    (status_code resp' < 400 \<or> 600 \<le> status_code resp') \<and>
    body resp' = Inr d' \<and> getitem d' ''result'' = Inr r' \<longrightarrow>
      TokenContract_balance_of t tok c address =
        (Inr r', tok,
         with_request c
           (query_request (config c) (token_address tok) ''balanceOf'' (Some [JStr address]))))"
proof -
  have q: "query_contract t c a m args =
        (Inr \<lparr>success = True, data = r, error = None\<rparr>,
         with_request c (query_request (config c) a m args))"
    if "reply t c (query_request (config c) a m args) = Inr resp \<and>
        (status_code resp < 400 \<or> 600 \<le> status_code resp) \<and>
        body resp = Inr d \<and> getitem d ''result'' = Inr r" for a m args resp d r
  proof -
    from that have "fst (query_contract t c a m args) =
        Inr \<lparr>success = True, data = r, error = None\<rparr>"
      by (simp add: query_contract_good raise_for_status_passes)
    then show ?thesis
      by (simp add: prod_eq_iff query_contract_client)
  qed
  have b: "TokenContract_balance_of t tok c address =
        (Inr r', tok,
         with_request c
           (query_request (config c) (token_address tok) ''balanceOf'' (Some [JStr address])))"
    if h: "truthy (token_address tok) \<and>
      reply t c (query_request (config c) (token_address tok) ''balanceOf'' (Some [JStr address])) =
        Inr resp' \<and>
      (status_code resp' < 400 \<or> 600 \<le> status_code resp') \<and>
      body resp' = Inr d' \<and> getitem d' ''result'' = Inr r'"
  proof -
    from h have "query_contract t c (token_address tok) ''balanceOf'' (Some [JStr address]) =
        (Inr \<lparr>success = True, data = r', error = None\<rparr>,
         with_request c
           (query_request (config c) (token_address tok) ''balanceOf'' (Some [JStr address])))"
      by (intro q [where resp = resp' and d = d']) simp
    with h show ?thesis
      by (simp add: TokenContract_balance_of_def)
  qed
  from q b show ?thesis
    by blast
qed

text \<open>
  The scenario, \<^verbatim>\<open>{"result": "500"}\<close> for the balance of \<^verbatim>\<open>"0xuser"\<close>, and the same helper
  with the response \<^verbatim>\<open>{"result": "600"}\<close> for another address.
\<close>

theorem balance_of_returns_result_witness:
  "fst (query_contract (mock_reply (JObj [(''result'', JStr ''500'')]))
          (AgefixClient_init config_no_key) (JStr ''0xabc'') ''balanceOf''
          (Some [JStr ''0xuser''])) =
     Inr \<lparr>success = True, data = JStr ''500'', error = None\<rparr> \<and>
   fst (TokenContract_balance_of (mock_reply (JObj [(''result'', JStr ''500'')]))
          (TokenContract_init (JStr ''0xabc'')) (AgefixClient_init config_no_key) ''0xuser'') =
     Inr (JStr ''500'') \<and>
   fst (TokenContract_balance_of (mock_reply (JObj [(''result'', JStr ''600'')]))
          (TokenContract_init (JStr ''0xabc'')) (AgefixClient_init config_no_key) ''0xother'') =
     Inr (JStr ''600'')"
proof -
  let ?c = "AgefixClient_init config_no_key"
  let ?tok = "TokenContract_init (JStr ''0xabc'')"
  have y: "truthy (token_address ?tok)"
    by (simp add: TokenContract_init_def)
  have a: "token_address ?tok = JStr ''0xabc''"
    by (simp add: TokenContract_init_def)
  have h: "reply (mock_reply (JObj [(''result'', JStr v)])) ?c
             (query_request (config ?c) (JStr ''0xabc'') ''balanceOf'' (Some [JStr u])) =
           Inr \<lparr>status_code = 200, reason = ''OK'',
                response_url = url (query_request (config ?c) (JStr ''0xabc'') ''balanceOf''
                                      (Some [JStr u])),
                body = Inr (JObj [(''result'', JStr v)])\<rparr>" for u v
    by (simp add: reply_mock_reply)
  let ?resp = "\<lambda>u v. \<lparr>status_code = 200, reason = ''OK'',
                response_url = url (query_request (config ?c) (JStr ''0xabc'') ''balanceOf''
                                      (Some [JStr u])),
                body = Inr (JObj [(''result'', JStr v)])\<rparr>"
  note i1 = balance_of_returns_result [of "mock_reply (JObj [(''result'', JStr ''500'')])" ?c
      "JStr ''0xabc''" "''balanceOf''" "Some [JStr ''0xuser'']" "?resp ''0xuser'' ''500''"
      "JObj [(''result'', JStr ''500'')]" "JStr ''500''" ?tok "''0xuser''"
      "?resp ''0xuser'' ''500''" "JObj [(''result'', JStr ''500'')]" "JStr ''500''"]
  note i2 = balance_of_returns_result [of "mock_reply (JObj [(''result'', JStr ''600'')])" ?c
      "JStr ''0xabc''" "''balanceOf''" "Some [JStr ''0xother'']" "?resp ''0xother'' ''600''"
      "JObj [(''result'', JStr ''600'')]" "JStr ''600''" ?tok "''0xother''"
      "?resp ''0xother'' ''600''" "JObj [(''result'', JStr ''600'')]" "JStr ''600''"]
  have w1: "fst (query_contract (mock_reply (JObj [(''result'', JStr ''500'')])) ?c
               (JStr ''0xabc'') ''balanceOf'' (Some [JStr ''0xuser''])) =
     Inr \<lparr>success = True, data = JStr ''500'', error = None\<rparr>"
    using i1 h [of "''500''" "''0xuser''"] by simp
  have w2: "fst (TokenContract_balance_of (mock_reply (JObj [(''result'', JStr ''500'')]))
               ?tok ?c ''0xuser'') = Inr (JStr ''500'')"
    using i1 y a h [of "''500''" "''0xuser''"] by simp
  have w3: "fst (TokenContract_balance_of (mock_reply (JObj [(''result'', JStr ''600'')]))
               ?tok ?c ''0xother'') = Inr (JStr ''600'')"
    using i2 y a h [of "''600''" "''0xother''"] by simp
  from w1 w2 w3 show ?thesis by blast
qed

subsection \<open>C6: a good execute reply reaches the caller of \<open>transfer\<close>\<close>

text \<open>
  C6. Whatever document the execute endpoint responds with, under a status that
  \<^verbatim>\<open>raise_for_status()\<close> lets pass: when its fields \<^verbatim>\<open>txHash\<close>, \<^verbatim>\<open>blockNumber\<close> and \<^verbatim>\<open>gasUsed\<close>
  are \<open>h\<close>, \<open>b\<close> and \<open>g\<close>, and a token helper with an address transfers through a client
  with a signing key, \<open>transfer\<close> sends the request for \<^verbatim>\<open>transfer\<close> with the recipient and
  the amount, and returns the \<^verbatim>\<open>TransactionResult\<close> with \<^verbatim>\<open>tx_hash=h\<close>, \<^verbatim>\<open>block_number=b\<close>,
  \<^verbatim>\<open>gas_used=g\<close> and \<^verbatim>\<open>success=True\<close>. For the response
  \<^verbatim>\<open>{"txHash": "0x2", "blockNumber": 11, "gasUsed": 21000}\<close> these are \<^verbatim>\<open>"0x2"\<close>, 11 and 21000.
  (Without an address or without a key no request is sent: C3 and C2.)
\<close>

theorem transfer_returns_result:
  "truthy (token_address tok) \<Longrightarrow>
   truthy (optional_str (private_key (config c))) \<Longrightarrow>
   reply t c (execute_request (config c) (token_address tok) ''transfer''
               (Some [JStr to, JStr amount]) ''0'') = Inr resp \<Longrightarrow>
   status_code resp < 400 \<or> 600 \<le> status_code resp \<Longrightarrow>
   body resp = Inr d \<Longrightarrow>
   getitem d ''txHash'' = Inr h \<Longrightarrow>
   getitem d ''blockNumber'' = Inr b \<Longrightarrow>
   getitem d ''gasUsed'' = Inr g \<Longrightarrow>
   TokenContract_transfer t tok c to amount =
     (Inr \<lparr>tx_hash = h, tx_block_number = b, gas_used = g, tx_success = True\<rparr>,
      tok,
      with_request c (execute_request (config c) (token_address tok) ''transfer''
                        (Some [JStr to, JStr amount]) ''0''))"
proof -
  assume y: "truthy (token_address tok)"
    and k: "truthy (optional_str (private_key (config c)))"
    and p: "reply t c (execute_request (config c) (token_address tok) ''transfer''
               (Some [JStr to, JStr amount]) ''0'') = Inr resp"
    and st: "status_code resp < 400 \<or> 600 \<le> status_code resp"
    and bd: "body resp = Inr d"
    and gh: "getitem d ''txHash'' = Inr h"
    and gb: "getitem d ''blockNumber'' = Inr b"
    and gg: "getitem d ''gasUsed'' = Inr g"
  have "fst (execute_transaction t c (token_address tok) ''transfer''
               (Some [JStr to, JStr amount]) ''0'') =
     Inr \<lparr>tx_hash = h, tx_block_number = b, gas_used = g, tx_success = True\<rparr>"
    by (rule execute_transaction_good [OF k p raise_for_status_passes [OF st] bd gh gb gg])
  with y k show ?thesis
    by (simp add: TokenContract_transfer_def case_prod_beta execute_transaction_client)
qed

text \<open>
  The scenario, and the same transfer answered with another document.
\<close>

theorem transfer_returns_result_witness:
  "fst (TokenContract_transfer (mock_reply execute_document) (TokenContract_init (JStr ''0xabc''))
          (AgefixClient_init config_with_key) ''0xuser'' ''100'') =
     Inr \<lparr>tx_hash = JStr ''0x2'', tx_block_number = JInt 11, gas_used = JInt 21000,
          tx_success = True\<rparr> \<and>
   fst (TokenContract_transfer
          (mock_reply (JObj [(''txHash'', JStr ''0x3''), (''blockNumber'', JInt 12),
                             (''gasUsed'', JInt 42000)]))
          (TokenContract_init (JStr ''0xabc''))
          (AgefixClient_init config_with_key) ''0xuser'' ''100'') =
     Inr \<lparr>tx_hash = JStr ''0x3'', tx_block_number = JInt 12, gas_used = JInt 42000,
          tx_success = True\<rparr>"
proof -
  let ?c = "AgefixClient_init config_with_key"
  let ?tok = "TokenContract_init (JStr ''0xabc'')"
  let ?d2 = "JObj [(''txHash'', JStr ''0x3''), (''blockNumber'', JInt 12),
                   (''gasUsed'', JInt 42000)]"
  have y: "truthy (token_address ?tok)"
    by (simp add: TokenContract_init_def)
  have k: "truthy (optional_str (private_key (config ?c)))"
    by (simp add: AgefixClient_init_def config_with_key_def)
  have st: "status_code \<lparr>status_code = 200, reason = ''OK'', response_url = u, body = Inr j\<rparr> < 400 \<or>
            600 \<le> status_code \<lparr>status_code = 200, reason = ''OK'', response_url = u, body = Inr j\<rparr>"
    for u and j :: json
    by simp
  have bd: "body \<lparr>status_code = 200, reason = ''OK'', response_url = u, body = Inr j\<rparr> = Inr j"
    for u and j :: json
    by simp
  have g1: "getitem execute_document ''txHash'' = Inr (JStr ''0x2'')"
    "getitem execute_document ''blockNumber'' = Inr (JInt 11)"
    "getitem execute_document ''gasUsed'' = Inr (JInt 21000)"
    by (simp_all add: execute_document_def)
  have g2: "getitem ?d2 ''txHash'' = Inr (JStr ''0x3'')"
    "getitem ?d2 ''blockNumber'' = Inr (JInt 12)"
    "getitem ?d2 ''gasUsed'' = Inr (JInt 42000)"
    by simp_all
  from transfer_returns_result [OF y k reply_mock_reply st bd g1]
  have w1: "fst (TokenContract_transfer (mock_reply execute_document) ?tok ?c ''0xuser'' ''100'') =
     Inr \<lparr>tx_hash = JStr ''0x2'', tx_block_number = JInt 11, gas_used = JInt 21000,
          tx_success = True\<rparr>"
    by simp
  from transfer_returns_result [OF y k reply_mock_reply st bd g2]
  have w2: "fst (TokenContract_transfer (mock_reply ?d2) ?tok ?c ''0xuser'' ''100'') =
     Inr \<lparr>tx_hash = JStr ''0x3'', tx_block_number = JInt 12, gas_used = JInt 42000,
          tx_success = True\<rparr>"
    by simp
  from w1 w2 show ?thesis by (rule conjI)
qed

subsection \<open>C7: the raising calls wrap every failure in a \<^verbatim>\<open>RuntimeError\<close>\<close>

text \<open>
  C7, as the code has it. For each of \<open>deploy_contract\<close>, \<open>execute_transaction\<close> (with a
  signing key, so that the request is made), \<open>get_transaction_receipt\<close>, \<open>get_balance\<close>
  and \<open>estimate_gas\<close>:
  \<^item> whenever the reply fails with an exception \<open>e\<close> that is an instance of \<^verbatim>\<open>Exception\<close>
    (the request raises, \<^verbatim>\<open>raise_for_status()\<close> refuses the status, the body is not JSON,
    or an expected field cannot be read), the operation raises one \<^verbatim>\<open>RuntimeError\<close> whose
    message is the operation's fixed prefix followed by the text of \<open>e\<close>;
  \<^item> whenever the reply fails with an exception that is not an instance of \<^verbatim>\<open>Exception\<close>
    (\<^verbatim>\<open>KeyboardInterrupt\<close>, \<^verbatim>\<open>SystemExit\<close>), the operation raises that exception itself;
  \<^item> whenever the reply does not fail, the operation returns.
  The statuses that fail are the codes from 400 to 599, with the library's \<^verbatim>\<open>HTTPError\<close>
  and its message; under any other status code, 2xx or not, the reply fails only by its
  body or a missing field. And whatever any of the five raises is a \<^verbatim>\<open>RuntimeError\<close> or is
  not an instance of \<^verbatim>\<open>Exception\<close>: no other class reaches the caller.
\<close>

theorem raising_calls_wrap_errors:
  "(\<forall>e. failure_of (reply t c (deploy_request (config c) code cargs))
          [''contractAddress'', ''txHash'', ''blockNumber''] = Some e \<longrightarrow>
        fst (deploy_contract t c code cargs) =
          (if is_Exception (exn_type e)
           then Inl (Exn RuntimeError (''Contract deployment failed: '' @ str e))
           else Inl e)) \<and>
   (failure_of (reply t c (deploy_request (config c) code cargs))
          [''contractAddress'', ''txHash'', ''blockNumber''] = None \<longrightarrow>
        (\<exists>r. fst (deploy_contract t c code cargs) = Inr r)) \<and>
   (\<forall>e. truthy (optional_str (private_key (config c))) \<and>
        failure_of (reply t c (execute_request (config c) a m args v))
          [''txHash'', ''blockNumber'', ''gasUsed''] = Some e \<longrightarrow>
        fst (execute_transaction t c a m args v) =
          (if is_Exception (exn_type e)
           then Inl (Exn RuntimeError (''Transaction execution failed: '' @ str e))
           else Inl e)) \<and>
   (truthy (optional_str (private_key (config c))) \<and>
        failure_of (reply t c (execute_request (config c) a m args v))
          [''txHash'', ''blockNumber'', ''gasUsed''] = None \<longrightarrow>
        (\<exists>r. fst (execute_transaction t c a m args v) = Inr r)) \<and>
   (\<forall>e. failure_of (reply t c (receipt_request (config c) txh))
          [] = Some e \<longrightarrow>
        fst (get_transaction_receipt t c txh) =
          (if is_Exception (exn_type e)
           then Inl (Exn RuntimeError (''Failed to get transaction receipt: '' @ str e))
           else Inl e)) \<and>
   (failure_of (reply t c (receipt_request (config c) txh))
          [] = None \<longrightarrow>
        (\<exists>r. fst (get_transaction_receipt t c txh) = Inr r)) \<and>
   (\<forall>e. failure_of (reply t c (balance_request (config c) address))
          [''balance''] = Some e \<longrightarrow>
        fst (get_balance t c address) =
          (if is_Exception (exn_type e)
           then Inl (Exn RuntimeError (''Failed to get balance: '' @ str e))
           else Inl e)) \<and>
   (failure_of (reply t c (balance_request (config c) address))
          [''balance''] = None \<longrightarrow>
        (\<exists>r. fst (get_balance t c address) = Inr r)) \<and>
   (\<forall>e. failure_of (reply t c (estimate_gas_request (config c) a m args))
          [''gasEstimate''] = Some e \<longrightarrow>
        fst (estimate_gas t c a m args) =
          (if is_Exception (exn_type e)
           then Inl (Exn RuntimeError (''Failed to estimate gas: '' @ str e))
           else Inl e)) \<and>
   (failure_of (reply t c (estimate_gas_request (config c) a m args))
          [''gasEstimate''] = None \<longrightarrow>
        (\<exists>r. fst (estimate_gas t c a m args) = Inr r)) \<and>
   (\<forall>r ks. 400 \<le> status_code r \<and> status_code r < 600 \<longrightarrow>
        failure_of (Inr r) ks = Some (Exn HTTPError (http_error_msg r))) \<and>
   (\<forall>r d ks. (status_code r < 400 \<or> 600 \<le> status_code r) \<and> body r = Inr d \<longrightarrow>
        failure_of (Inr r) ks = missing_field d ks) \<and>
   (\<forall>x. fst (deploy_contract t c code cargs) = Inl x \<or>
        fst (execute_transaction t c a m args v) = Inl x \<or>
        fst (get_transaction_receipt t c txh) = Inl x \<or>
        fst (get_balance t c address) = Inl x \<or>
        fst (estimate_gas t c a m args) = Inl x \<longrightarrow>
        exn_type x = RuntimeError \<or> \<not> is_Exception (exn_type x))"
proof -
  have f0: "fst (deploy_contract t c code cargs) =
          (if is_Exception (exn_type e)
           then Inl (Exn RuntimeError (''Contract deployment failed: '' @ str e))
           else Inl e)"
    if "failure_of (reply t c (deploy_request (config c) code cargs))
          [''contractAddress'', ''txHash'', ''blockNumber''] = Some e" for e
    using that by (simp add: deploy_contract_failure deploy_contract_propagates)
  have r0: "\<exists>r. fst (deploy_contract t c code cargs) = Inr r"
    if "failure_of (reply t c (deploy_request (config c) code cargs))
          [''contractAddress'', ''txHash'', ''blockNumber''] = None"
    using that by (simp add: deploy_contract_returns)
  have f1: "fst (execute_transaction t c a m args v) =
          (if is_Exception (exn_type e)
           then Inl (Exn RuntimeError (''Transaction execution failed: '' @ str e))
           else Inl e)"
    if "truthy (optional_str (private_key (config c))) \<and>
        failure_of (reply t c (execute_request (config c) a m args v))
          [''txHash'', ''blockNumber'', ''gasUsed''] = Some e" for e
    using that by (simp add: execute_transaction_failure execute_transaction_propagates)
  have r1: "\<exists>r. fst (execute_transaction t c a m args v) = Inr r"
    if "truthy (optional_str (private_key (config c))) \<and>
        failure_of (reply t c (execute_request (config c) a m args v))
          [''txHash'', ''blockNumber'', ''gasUsed''] = None"
    using that by (simp add: execute_transaction_returns)
  have f2: "fst (get_transaction_receipt t c txh) =
          (if is_Exception (exn_type e)
           then Inl (Exn RuntimeError (''Failed to get transaction receipt: '' @ str e))
           else Inl e)"
    if "failure_of (reply t c (receipt_request (config c) txh))
          [] = Some e" for e
    using that by (simp add: get_transaction_receipt_failure get_transaction_receipt_propagates)
  have r2: "\<exists>r. fst (get_transaction_receipt t c txh) = Inr r"
    if "failure_of (reply t c (receipt_request (config c) txh))
          [] = None"
    using that by (simp add: get_transaction_receipt_returns)
  have f3: "fst (get_balance t c address) =
          (if is_Exception (exn_type e)
           then Inl (Exn RuntimeError (''Failed to get balance: '' @ str e))
           else Inl e)"
    if "failure_of (reply t c (balance_request (config c) address))
          [''balance''] = Some e" for e
    using that by (simp add: get_balance_failure get_balance_propagates)
  have r3: "\<exists>r. fst (get_balance t c address) = Inr r"
    if "failure_of (reply t c (balance_request (config c) address))
          [''balance''] = None"
    using that by (simp add: get_balance_returns)
  have f4: "fst (estimate_gas t c a m args) =
          (if is_Exception (exn_type e)
           then Inl (Exn RuntimeError (''Failed to estimate gas: '' @ str e))
           else Inl e)"
    if "failure_of (reply t c (estimate_gas_request (config c) a m args))
          [''gasEstimate''] = Some e" for e
    using that by (simp add: estimate_gas_failure estimate_gas_propagates)
  have r4: "\<exists>r. fst (estimate_gas t c a m args) = Inr r"
    if "failure_of (reply t c (estimate_gas_request (config c) a m args))
          [''gasEstimate''] = None"
    using that by (simp add: estimate_gas_returns)
  have s1: "failure_of (Inr r) ks = Some (Exn HTTPError (http_error_msg r))"
    if "400 \<le> status_code r \<and> status_code r < 600" for r ks
    using that by (simp add: failure_of_refused)
  have s2: "failure_of (Inr r) ks = missing_field d ks"
    if "(status_code r < 400 \<or> 600 \<le> status_code r) \<and> body r = Inr d" for r d ks
    using that by (simp add: failure_of_passes)
  have l: "exn_type x = RuntimeError \<or> \<not> is_Exception (exn_type x)"
    if "fst (deploy_contract t c code cargs) = Inl x \<or>
        fst (execute_transaction t c a m args v) = Inl x \<or>
        fst (get_transaction_receipt t c txh) = Inl x \<or>
        fst (get_balance t c address) = Inl x \<or>
        fst (estimate_gas t c a m args) = Inl x" for x
    using that deploy_contract_raises [of t c code cargs x]
      execute_transaction_raises [of t c a m args v x]
      get_transaction_receipt_raises [of t c txh x]
      get_balance_raises [of t c address x]
      estimate_gas_raises [of t c a m args x]
    by blast
  from f0 r0 f1 r1 f2 r2 f3 r3 f4 r4 s1 s2 l show ?thesis
    by blast
qed

text \<open>
  A deployment refused with a 404, a gas estimate whose document lacks the field
  \<^verbatim>\<open>gasEstimate\<close>, and a balance whose request fails to connect: each raises a
  \<^verbatim>\<open>RuntimeError\<close> carrying the text of the original error.
\<close>

theorem raising_calls_wrap_errors_witness:
  "fst (deploy_contract (mock_status 404 ''Not Found'' (JObj []))
          (AgefixClient_init config_with_key) ''contract C {}'' None) =
     Inl (Exn RuntimeError
       ''Contract deployment failed: 404 Client Error: Not Found for url: https://rpc.agefix.com/deploy'') \<and>
   fst (estimate_gas (mock_reply (JObj [])) (AgefixClient_init config_with_key)
          (JStr ''0xabc'') ''transfer'' None) =
     Inl (Exn RuntimeError (''Failed to estimate gas: '' @ squote @ ''gasEstimate'' @ squote)) \<and>
   fst (get_balance (mock_connection_error ''connection refused'')
          (AgefixClient_init config_with_key) ''0xuser'') =
     Inl (Exn RuntimeError ''Failed to get balance: connection refused'')"
proof -
  let ?c = "AgefixClient_init config_with_key"
  let ?t1 = "mock_status 404 ''Not Found'' (JObj [])"
  let ?t2 = "mock_reply (JObj [])"
  let ?t3 = "mock_connection_error ''connection refused''"
  let ?r1 = "\<lparr>status_code = 404, reason = ''Not Found'',
             response_url = url (deploy_request (config ?c) ''contract C {}'' None),
             body = Inr (JObj [])\<rparr>"
  have m1: "http_error_msg ?r1 =
      ''404 Client Error: Not Found for url: https://rpc.agefix.com/deploy''"
    by (simp add: http_error_msg_def deploy_request_def AgefixClient_init_def
          config_with_key_def str_int_def str_nat.simps)
  have f1: "failure_of (reply ?t1 ?c (deploy_request (config ?c) ''contract C {}'' None))
          [''contractAddress'', ''txHash'', ''blockNumber''] =
        Some (Exn HTTPError
          ''404 Client Error: Not Found for url: https://rpc.agefix.com/deploy'')"
    using failure_of_refused [of ?r1 "[''contractAddress'', ''txHash'', ''blockNumber'']"]
    by (simp only: reply_mock_status m1) simp
  have f2: "failure_of (reply ?t2 ?c (estimate_gas_request (config ?c) (JStr ''0xabc'')
              ''transfer'' None)) [''gasEstimate''] =
        Some (Exn KeyError (squote @ ''gasEstimate'' @ squote))"
    by (simp add: reply_mock_reply failure_of_passes)
  have f3: "failure_of (reply ?t3 ?c (balance_request (config ?c) ''0xuser'')) [''balance''] =
        Some (Exn ConnectionError ''connection refused'')"
    by (simp add: reply_mock_connection_error failure_of_def)
  note i1 = raising_calls_wrap_errors [of ?t1 ?c "''contract C {}''" None
      "JStr ''0xabc''" "''transfer''" None "''0''" "''0x1''" "''0xuser''"]
  note i2 = raising_calls_wrap_errors [of ?t2 ?c "''contract C {}''" None
      "JStr ''0xabc''" "''transfer''" None "''0''" "''0x1''" "''0xuser''"]
  note i3 = raising_calls_wrap_errors [of ?t3 ?c "''contract C {}''" None
      "JStr ''0xabc''" "''transfer''" None "''0''" "''0x1''" "''0xuser''"]
  have w1: "fst (deploy_contract ?t1 ?c ''contract C {}'' None) =
     Inl (Exn RuntimeError
       ''Contract deployment failed: 404 Client Error: Not Found for url: https://rpc.agefix.com/deploy'')"
    using i1 f1 by simp
  have w2: "fst (estimate_gas ?t2 ?c (JStr ''0xabc'') ''transfer'' None) =
     Inl (Exn RuntimeError (''Failed to estimate gas: '' @ squote @ ''gasEstimate'' @ squote))"
    using i2 f2 by simp
  have w3: "fst (get_balance ?t3 ?c ''0xuser'') =
     Inl (Exn RuntimeError ''Failed to get balance: connection refused'')"
    using i3 f3 by simp
  from w1 w2 w3 show ?thesis by blast
qed

text \<open>
  The claim as stated has every non-2xx status and every transport error end in a
  \<^verbatim>\<open>RuntimeError\<close>. A deployment answered with status 302 and a complete document returns
  the deployment record; and a keyboard interrupt during the request of \<open>get_balance\<close>
  reaches the caller as the \<^verbatim>\<open>KeyboardInterrupt\<close> it is.
\<close>

theorem raising_calls_counterexample:
  "fst (deploy_contract (mock_status 302 ''Found'' deploy_document)
          (AgefixClient_init config_with_key) ''contract C {}'' None) =
     Inr \<lparr>contract_address = JStr ''0xabc'', transaction_hash = JStr ''0x1'',
          block_number = JInt 10\<rparr> \<and>
   fst (get_balance mock_interrupt (AgefixClient_init config_with_key) ''0xuser'') =
     Inl (Exn KeyboardInterrupt [])"
proof -
  let ?c = "AgefixClient_init config_with_key"
  have w1: "fst (deploy_contract (mock_status 302 ''Found'' deploy_document) ?c
               ''contract C {}'' None) =
     Inr \<lparr>contract_address = JStr ''0xabc'', transaction_hash = JStr ''0x1'',
          block_number = JInt 10\<rparr>"
    by (rule deploy_contract_good [OF reply_mock_status, where d = deploy_document])
       (simp_all add: raise_for_status_passes deploy_document_def)
  have w2: "fst (get_balance mock_interrupt ?c ''0xuser'') = Inl (Exn KeyboardInterrupt [])"
    using get_balance_propagates [of mock_interrupt ?c "''0xuser''" "Exn KeyboardInterrupt []"]
    by (simp add: failure_of_def reply_mock_interrupt)
  from w1 w2 show ?thesis by (rule conjI)
qed

subsection \<open>C8: the configuration\<close>

text \<open>
  C8, as the code has it. No operation of the client and no operation of the contract
  helpers changes the configuration: after every one of them, whatever it returns or
  raises, the client's \<open>config\<close> is the one it had. (The record itself is a plain
  dataclass: see the counterexample.)
\<close>

theorem operations_preserve_config:
  "config (snd (deploy_contract t c code cargs)) = config c \<and>
   config (snd (query_contract t c a m args)) = config c \<and>
   config (snd (execute_transaction t c a m args v)) = config c \<and>
   config (snd (get_transaction_receipt t c txh)) = config c \<and>
   config (snd (get_balance t c address)) = config c \<and>
   config (snd (estimate_gas t c a m args)) = config c \<and>
   config (snd (snd (TokenContract_deploy t tok c name symbol total_supply))) = config c \<and>
   config (snd (snd (TokenContract_balance_of t tok c address))) = config c \<and>
   config (snd (snd (TokenContract_transfer t tok c to amount))) = config c \<and>
   config (snd (snd (TokenContract_approve t tok c spender amount))) = config c \<and>
   config (snd (snd (NFTContract_deploy t nft c name symbol))) = config c \<and>
   config (snd (snd (NFTContract_mint t nft c to uri))) = config c \<and>
   config (snd (snd (NFTContract_owner_of t nft c token_id))) = config c"
proof -
  have client:
    "config (snd (deploy_contract t c code cargs)) = config c"
    "config (snd (query_contract t c a m args)) = config c"
    "config (snd (execute_transaction t c a m args v)) = config c"
    "config (snd (get_transaction_receipt t c txh)) = config c"
    "config (snd (get_balance t c address)) = config c"
    "config (snd (estimate_gas t c a m args)) = config c"
    for t c code cargs a m args v txh address
    by (simp_all add: deploy_contract_client query_contract_client execute_transaction_client
          get_transaction_receipt_client get_balance_client estimate_gas_client)
  have token:
    "config (snd (snd (TokenContract_deploy t tok c name symbol total_supply))) = config c"
    "config (snd (snd (TokenContract_balance_of t tok c address))) = config c"
    "config (snd (snd (TokenContract_transfer t tok c to amount))) = config c"
    "config (snd (snd (TokenContract_approve t tok c spender amount))) = config c"
    by (simp_all add: TokenContract_deploy_def TokenContract_balance_of_def
          TokenContract_transfer_def TokenContract_approve_def case_prod_beta client
          split: sum.splits)
  have nft:
    "config (snd (snd (NFTContract_deploy t nft c name symbol))) = config c"
    "config (snd (snd (NFTContract_mint t nft c to uri))) = config c"
    "config (snd (snd (NFTContract_owner_of t nft c token_id))) = config c"
    by (simp_all add: NFTContract_deploy_def NFTContract_mint_def NFTContract_owner_of_def
          case_prod_beta client split: sum.splits)
  from client [of t c] token nft show ?thesis
    by simp
qed

text \<open>
  The claim as stated has the record itself immutable once built. \<^verbatim>\<open>AgefixConfig\<close> is not a
  frozen dataclass: an assignment to its \<^verbatim>\<open>rpc_url\<close> stores the new value.
\<close>

theorem config_assignment_counterexample:
  "AgefixConfig_setattr config_with_key (Set_rpc_url ''https://elsewhere.example'') =
     Inr \<lparr>rpc_url = ''https://elsewhere.example'', chain_id = ''agefix-mainnet-1'',
          private_key = Some ''your_private_key''\<rparr> \<and>
   rpc_url config_with_key = ''https://rpc.agefix.com''"
  by (simp add: AgefixConfig_setattr_def AgefixConfig_frozen_def config_with_key_def)

subsection \<open>C9: a returned transaction result reports success\<close>

text \<open>
  C9. Whenever \<open>execute_transaction\<close> returns a \<^verbatim>\<open>TransactionResult\<close>, its \<^verbatim>\<open>success\<close> field
  is True: every failure raises instead of returning.
\<close>

theorem execute_transaction_success_flag:
  "fst (execute_transaction t self a m args v) = Inr r \<Longrightarrow> tx_success r"
  by (auto simp: execute_transaction_def transport_defs and_then_def
           split: sum.splits option.splits prod.splits if_splits)

theorem execute_transaction_success_flag_witness:
  "fst (execute_transaction (mock_reply execute_document) (AgefixClient_init config_with_key)
       (JStr ''0xabc'') ''transfer'' (Some [JStr ''0xuser'', JStr ''100'']) ''0'') =
     Inr \<lparr>tx_hash = JStr ''0x2'', tx_block_number = JInt 11, gas_used = JInt 21000,
          tx_success = True\<rparr> \<and>
   tx_success \<lparr>tx_hash = JStr ''0x2'', tx_block_number = JInt 11, gas_used = JInt 21000,
          tx_success = True\<rparr>"
proof -
  have r: "fst (execute_transaction (mock_reply execute_document)
       (AgefixClient_init config_with_key)
       (JStr ''0xabc'') ''transfer'' (Some [JStr ''0xuser'', JStr ''100'']) ''0'') =
     Inr \<lparr>tx_hash = JStr ''0x2'', tx_block_number = JInt 11, gas_used = JInt 21000,
          tx_success = True\<rparr>"
    by (rule execute_transaction_good [OF _ reply_mock_reply, where d = execute_document])
       (simp_all add: AgefixClient_init_def config_with_key_def raise_for_status_passes
          execute_document_def)
  from r execute_transaction_success_flag [OF r] show ?thesis by (rule conjI)
qed

subsection \<open>C10: the two queries of the helpers ignore the success flag\<close>



end
